theory Spec2Isabelle
  imports Complex_Main "HOL-Library.Word"
begin

section \<open>Hardware vocabulary shared by both sketches\<close>

text \<open>
  The repository holds two Arduino Uno sketches: the TMP36 sketch (Tinkercad optimised)
  and the DHT22 sketch (\<^verbatim>\<open>fire_detection_system.ino\<close>). Both drive the same five
  output pins. On the ATmega328P of the Uno a \<^verbatim>\<open>byte\<close> has 8 bits, an
  \<^verbatim>\<open>unsigned int\<close> 16 bits and an \<^verbatim>\<open>unsigned long\<close> 32 bits; counters and
  timestamps are words of these widths, so \<open>+\<close> and \<open>-\<close> wrap as the C operators do.

  A \<^verbatim>\<open>float\<close> temperature is modelled by the real number it denotes: every comparison
  in the sketches is against a constant that a float represents exactly, so the
  comparison of reals decides as the comparison of floats does. NaN, which only the
  DHT22 driver can return, is \<open>None\<close> of \<open>real option\<close>.

  What a sketch does to the outside world is recorded, in order, in the \<open>effects\<close>
  list of its state: pin writes, blocking delays and serial messages.
\<close>

datatype pin = LED_RED | LED_GREEN | LED_YELLOW | BUZZER_PIN | RELAY_PIN

datatype 'm event = DigitalWrite pin bool | Delay nat | Print 'm

record 'm board =
  pinRed :: bool
  pinGreen :: bool
  pinYellow :: bool
  pinBuzzer :: bool
  pinRelay :: bool
  effects :: "'m event list"

fun setPin :: "pin \<Rightarrow> bool \<Rightarrow> ('m, 'z) board_scheme \<Rightarrow> ('m, 'z) board_scheme" where
  "setPin LED_RED v s = s\<lparr>pinRed := v\<rparr>"
| "setPin LED_GREEN v s = s\<lparr>pinGreen := v\<rparr>"
| "setPin LED_YELLOW v s = s\<lparr>pinYellow := v\<rparr>"
| "setPin BUZZER_PIN v s = s\<lparr>pinBuzzer := v\<rparr>"
| "setPin RELAY_PIN v s = s\<lparr>pinRelay := v\<rparr>"

definition digitalWrite :: "pin \<Rightarrow> bool \<Rightarrow> ('m, 'z) board_scheme \<Rightarrow> ('m, 'z) board_scheme" where
  "digitalWrite p v s = (setPin p v s)\<lparr>effects := effects s @ [DigitalWrite p v]\<rparr>"

definition delay :: "nat \<Rightarrow> ('m, 'z) board_scheme \<Rightarrow> ('m, 'z) board_scheme" where
  "delay ms s = s\<lparr>effects := effects s @ [Delay ms]\<rparr>"

definition println :: "'m \<Rightarrow> ('m, 'z) board_scheme \<Rightarrow> ('m, 'z) board_scheme" where
  "println m s = s\<lparr>effects := effects s @ [Print m]\<rparr>"

text \<open>The number of times the suppression relay has been driven high so far.\<close>

definition relayFirings :: "('m, 'z) board_scheme \<Rightarrow> nat" where
  "relayFirings s = length (filter (\<lambda>e. e = DigitalWrite RELAY_PIN True) (effects s))"

text \<open>
  The flash loop of both activation routines,
  \<^verbatim>\<open>for (int i = 0; i < 3; i++) { all LEDs HIGH; delay(100); all LEDs LOW; delay(100); }\<close>,
  as recursion on the number of rounds left.
\<close>

fun flashAll :: "nat \<Rightarrow> ('m, 'z) board_scheme \<Rightarrow> ('m, 'z) board_scheme" where
  "flashAll 0 s = s"
| "flashAll (Suc n) s =
     flashAll n
       (delay 100 (digitalWrite LED_GREEN False (digitalWrite LED_YELLOW False
         (digitalWrite LED_RED False
           (delay 100 (digitalWrite LED_GREEN True (digitalWrite LED_YELLOW True
             (digitalWrite LED_RED True s))))))))"

section \<open>The TMP36 sketch\<close>

datatype FireRiskLevel = NORMAL | WARNING | DANGER

datatype SystemMode = AUTO_MODE | DEMO_MODE

text \<open>The numeric value of the enum, for \<^verbatim>\<open>currentRiskLevel >= WARNING\<close>.\<close>

fun riskValue :: "FireRiskLevel \<Rightarrow> nat" where
  "riskValue NORMAL = 0"
| "riskValue WARNING = 1"
| "riskValue DANGER = 2"

datatype msg =
    InvalidTemperatureReading real "8 word"
  | MultipleSensorFailures
  | DangerLevelActivated
  | FireDetected
  | WarningLevelActivated
  | TemperatureApproaching
  | NormalLevelRestored
  | HumanPresence
  | SuppressionValidationFailed
  | FireSuppressionActivated
  | DeployingSuppression
  | SuppressionCycleCompleted
  | MonitoringResumed
  | InvalidCommandFormat
  | ProcessingCommand string
  | DemoNormal
  | DemoWarning
  | DemoDanger
  | MotionDetection bool
  | SwitchedToAutomatic
  | SwitchedToDemonstration
  | UnknownCommand
  | MultipleInvalidCommands
  | DemoRequiresInitialization
  | ResetInitiated
  | ResetCompleted
  | CommandHelp
  | DetailedStatus
  | SystemStatistics
  | SecurityStatus
  | SystemStatus

record tmp36 = "msg board" +
  currentRiskLevel :: FireRiskLevel
  systemMode :: SystemMode
  currentTemperature :: real
  demoTemperature :: real
  lastValidTemperature :: real
  motionDetected :: bool
  demoMotion :: bool
  suppressionActivated :: bool
  sensorErrorCount :: "8 word"
  invalidCommandCount :: "8 word"
  systemIntegrityOK :: bool
  lastSensorRead :: "32 word"
  lastLedUpdate :: "32 word"
  lastBuzzerUpdate :: "32 word"
  lastStatusLog :: "32 word"
  ledBlinkState :: bool
  buzzerBeepState :: bool
  totalSensorReadings :: "16 word"
  warningActivations :: "16 word"
  dangerActivations :: "16 word"
  suppressionActivations :: "16 word"

definition TEMP_WARNING :: real where "TEMP_WARNING = 50"
definition TEMP_DANGER :: real where "TEMP_DANGER = 60"

definition LED_SLOW_BLINK :: "32 word" where "LED_SLOW_BLINK = 1000"
definition LED_FAST_BLINK :: "32 word" where "LED_FAST_BLINK = 200"
definition BUZZER_BEEP_INTERVAL :: "32 word" where "BUZZER_BEEP_INTERVAL = 2000"

definition TEMP_MIN_VALID :: real where "TEMP_MIN_VALID = - 10"
definition TEMP_MAX_VALID :: real where "TEMP_MAX_VALID = 85"
definition MAX_SENSOR_ERRORS :: "8 word" where "MAX_SENSOR_ERRORS = 5"
definition MAX_INVALID_COMMANDS :: "8 word" where "MAX_INVALID_COMMANDS = 3"

text \<open>
  The globals as their declarations initialise them, with the pins as
  \<^verbatim>\<open>initializeHardware\<close> and the self-test leave them (green on, the rest off).
\<close>

definition initialState :: tmp36 where
  "initialState =
     \<lparr>pinRed = False, pinGreen = True, pinYellow = False, pinBuzzer = False,
      pinRelay = False, effects = [],
      currentRiskLevel = NORMAL, systemMode = AUTO_MODE,
      currentTemperature = 25, demoTemperature = 25, lastValidTemperature = 25,
      motionDetected = False, demoMotion = False, suppressionActivated = False,
      sensorErrorCount = 0, invalidCommandCount = 0, systemIntegrityOK = True,
      lastSensorRead = 0, lastLedUpdate = 0, lastBuzzerUpdate = 0, lastStatusLog = 0,
      ledBlinkState = False, buzzerBeepState = False,
      totalSensorReadings = 0, warningActivations = 0, dangerActivations = 0,
      suppressionActivations = 0\<rparr>"

text \<open>
  \<^verbatim>\<open>readTMP36Temperature\<close>. The argument is the float \<^verbatim>\<open>temperature\<close> that the
  sketch computes from the ADC count, \<^verbatim>\<open>(analogValue * (5.0 / 1023.0) - 0.5) * 100.0\<close>;
  the validation and everything after it are the code's.
\<close>

definition readTMP36Temperature :: "real \<Rightarrow> tmp36 \<Rightarrow> tmp36" where
  "readTMP36Temperature temperature s =
     (if temperature \<ge> TEMP_MIN_VALID \<and> temperature \<le> TEMP_MAX_VALID then
        s\<lparr>currentTemperature := temperature, lastValidTemperature := temperature,
          sensorErrorCount := 0, systemIntegrityOK := True\<rparr>
      else
        let s1 = s\<lparr>sensorErrorCount := sensorErrorCount s + 1\<rparr>;
            s2 = s1\<lparr>currentTemperature := lastValidTemperature s1\<rparr>;
            s3 = println (InvalidTemperatureReading temperature (sensorErrorCount s2)) s2
        in if sensorErrorCount s3 \<ge> MAX_SENSOR_ERRORS then
             (println MultipleSensorFailures s3)\<lparr>systemIntegrityOK := False\<rparr>
           else s3)"

text \<open>\<^verbatim>\<open>readSensorsWithValidation\<close>; \<open>pir\<close> is what \<^verbatim>\<open>digitalRead(PIR_PIN)\<close> returns.\<close>

definition readSensorsWithValidation :: "real \<Rightarrow> bool \<Rightarrow> tmp36 \<Rightarrow> tmp36" where
  "readSensorsWithValidation temperature pir s =
     (let s1 = s\<lparr>totalSensorReadings := totalSensorReadings s + 1\<rparr>
      in if systemMode s1 = DEMO_MODE then
           s1\<lparr>currentTemperature := demoTemperature s1, motionDetected := demoMotion s1,
              sensorErrorCount := 0\<rparr>
         else
           (readTMP36Temperature temperature s1)\<lparr>motionDetected := pir\<rparr>)"

definition evaluateFireRisk :: "tmp36 \<Rightarrow> tmp36" where
  "evaluateFireRisk s =
     (let previousLevel = currentRiskLevel s;
          s1 =
            (if currentTemperature s \<ge> TEMP_DANGER then
               let s' = s\<lparr>currentRiskLevel := DANGER\<rparr>
               in if previousLevel \<noteq> DANGER then
                    println FireDetected (println DangerLevelActivated
                      (s'\<lparr>dangerActivations := dangerActivations s' + 1\<rparr>))
                  else s'
             else if currentTemperature s \<ge> TEMP_WARNING then
               let s' = s\<lparr>currentRiskLevel := WARNING\<rparr>
               in if previousLevel \<noteq> WARNING then
                    println TemperatureApproaching (println WarningLevelActivated
                      (s'\<lparr>warningActivations := warningActivations s' + 1\<rparr>))
                  else s'
             else
               let s' = s\<lparr>currentRiskLevel := NORMAL\<rparr>
               in if previousLevel \<noteq> NORMAL then
                    (println NormalLevelRestored s')\<lparr>suppressionActivated := False\<rparr>
                  else s')
      in if riskValue (currentRiskLevel s1) \<ge> riskValue WARNING \<and> motionDetected s1 then
           println HumanPresence s1
         else s1)"

text \<open>\<^verbatim>\<open>updateLEDIndicators\<close>; \<open>currentTime\<close> is what its call of \<^verbatim>\<open>millis()\<close> returns.\<close>

definition updateLEDIndicators :: "32 word \<Rightarrow> tmp36 \<Rightarrow> tmp36" where
  "updateLEDIndicators currentTime s =
     (case currentRiskLevel s of
        NORMAL \<Rightarrow>
          digitalWrite LED_RED False (digitalWrite LED_YELLOW False
            (digitalWrite LED_GREEN True s))
      | WARNING \<Rightarrow>
          if currentTime - lastLedUpdate s \<ge> LED_SLOW_BLINK then
            let s1 = s\<lparr>ledBlinkState := \<not> ledBlinkState s\<rparr>
            in (digitalWrite LED_RED False (digitalWrite LED_YELLOW (ledBlinkState s1)
                 (digitalWrite LED_GREEN False s1)))\<lparr>lastLedUpdate := currentTime\<rparr>
          else s
      | DANGER \<Rightarrow>
          if currentTime - lastLedUpdate s \<ge> LED_FAST_BLINK then
            let s1 = s\<lparr>ledBlinkState := \<not> ledBlinkState s\<rparr>
            in (digitalWrite LED_RED (ledBlinkState s1) (digitalWrite LED_YELLOW False
                 (digitalWrite LED_GREEN False s1)))\<lparr>lastLedUpdate := currentTime\<rparr>
          else s)"

definition updateBuzzerAlerts :: "32 word \<Rightarrow> tmp36 \<Rightarrow> tmp36" where
  "updateBuzzerAlerts currentTime s =
     (case currentRiskLevel s of
        NORMAL \<Rightarrow> (digitalWrite BUZZER_PIN False s)\<lparr>buzzerBeepState := False\<rparr>
      | WARNING \<Rightarrow>
          if currentTime - lastBuzzerUpdate s \<ge> BUZZER_BEEP_INTERVAL then
            let s1 = s\<lparr>buzzerBeepState := \<not> buzzerBeepState s\<rparr>
            in (digitalWrite BUZZER_PIN (buzzerBeepState s1) s1)
                 \<lparr>lastBuzzerUpdate := currentTime\<rparr>
          else s
      | DANGER \<Rightarrow> (digitalWrite BUZZER_PIN True s)\<lparr>buzzerBeepState := True\<rparr>)"

text \<open>
  \<^verbatim>\<open>validateSuppressionCommand\<close> returns its verdict and, having printed on a refusal,
  the state.
\<close>

definition validateSuppressionCommand :: "tmp36 \<Rightarrow> bool \<times> tmp36" where
  "validateSuppressionCommand s =
     (if currentTemperature s \<ge> TEMP_DANGER \<and> totalSensorReadings s > 3 \<and>
         systemIntegrityOK s
      then (True, s)
      else (False, println SuppressionValidationFailed s))"

definition activateFireSuppression :: "tmp36 \<Rightarrow> tmp36" where
  "activateFireSuppression s =
     (let s1 = s\<lparr>suppressionActivations := suppressionActivations s + 1\<rparr>;
          s2 = s1\<lparr>suppressionActivated := True\<rparr>;
          s3 = println DeployingSuppression (println FireSuppressionActivated s2);
          s4 = digitalWrite RELAY_PIN True s3;
          s5 = flashAll 3 s4;
          s6 = delay 3000 s5;
          s7 = digitalWrite RELAY_PIN False s6
      in println MonitoringResumed (println SuppressionCycleCompleted s7))"

definition handleFireSuppression :: "tmp36 \<Rightarrow> tmp36" where
  "handleFireSuppression s =
     (if currentRiskLevel s = DANGER \<and> \<not> suppressionActivated s then
        (case validateSuppressionCommand s of
           (True, s1) \<Rightarrow> activateFireSuppression s1
         | (False, s1) \<Rightarrow> s1)
      else s)"

definition validateDemoCommand :: "tmp36 \<Rightarrow> bool \<times> tmp36" where
  "validateDemoCommand s =
     (if totalSensorReadings s > 1 then (True, s)
      else (False, println DemoRequiresInitialization s))"

definition resetSystemSecure :: "tmp36 \<Rightarrow> tmp36" where
  "resetSystemSecure s =
     (let s1 = println ResetInitiated s;
          s2 = s1\<lparr>currentRiskLevel := NORMAL, systemMode := AUTO_MODE,
                 suppressionActivated := False, demoTemperature := 25,
                 demoMotion := False, sensorErrorCount := 0, invalidCommandCount := 0,
                 systemIntegrityOK := True\<rparr>;
          s3 = digitalWrite LED_GREEN True (digitalWrite LED_YELLOW False
                 (digitalWrite LED_RED False (digitalWrite BUZZER_PIN False
                   (digitalWrite RELAY_PIN False s2))))
      in println ResetCompleted s3)"

text \<open>The keywords \<^verbatim>\<open>processSecureCommand\<close> compares its argument with.\<close>

definition knownCommands :: "string list" where
  "knownCommands = [''HELP'', ''STATUS'', ''TEST_NORMAL'', ''TEST_WARNING'', ''TEST_DANGER'',
     ''MOTION'', ''RESET'', ''AUTO'', ''DEMO'', ''STATS'', ''SECURITY'']"

text \<open>
  \<^verbatim>\<open>processSecureCommand\<close>. The report printers (\<^verbatim>\<open>printCommandHelp\<close> and the
  like) only print; each is one message here.
\<close>

definition processSecureCommand :: "string \<Rightarrow> tmp36 \<Rightarrow> tmp36" where
  "processSecureCommand cmd s =
     (if length cmd = 0 \<or> length cmd > 15 then
        println InvalidCommandFormat (s\<lparr>invalidCommandCount := invalidCommandCount s + 1\<rparr>)
      else
        let s0 = println (ProcessingCommand cmd) s
        in if cmd = ''HELP'' then println CommandHelp s0
           else if cmd = ''STATUS'' then println DetailedStatus s0
           else if cmd = ''TEST_NORMAL'' then
             (case validateDemoCommand s0 of
                (True, s1) \<Rightarrow>
                  println DemoNormal (s1\<lparr>systemMode := DEMO_MODE, demoTemperature := 25\<rparr>)
              | (False, s1) \<Rightarrow> s1)
           else if cmd = ''TEST_WARNING'' then
             (case validateDemoCommand s0 of
                (True, s1) \<Rightarrow>
                  println DemoWarning (s1\<lparr>systemMode := DEMO_MODE, demoTemperature := 55\<rparr>)
              | (False, s1) \<Rightarrow> s1)
           else if cmd = ''TEST_DANGER'' then
             (case validateDemoCommand s0 of
                (True, s1) \<Rightarrow>
                  println DemoDanger (s1\<lparr>systemMode := DEMO_MODE, demoTemperature := 70\<rparr>)
              | (False, s1) \<Rightarrow> s1)
           else if cmd = ''MOTION'' then
             (let s1 = s0\<lparr>demoMotion := \<not> demoMotion s0\<rparr>
              in println (MotionDetection (demoMotion s1)) s1)
           else if cmd = ''RESET'' then resetSystemSecure s0
           else if cmd = ''AUTO'' then println SwitchedToAutomatic (s0\<lparr>systemMode := AUTO_MODE\<rparr>)
           else if cmd = ''DEMO'' then
             println SwitchedToDemonstration (s0\<lparr>systemMode := DEMO_MODE\<rparr>)
           else if cmd = ''STATS'' then println SystemStatistics s0
           else if cmd = ''SECURITY'' then println SecurityStatus s0
           else
             let s1 = println UnknownCommand
                        (s0\<lparr>invalidCommandCount := invalidCommandCount s0 + 1\<rparr>)
             in if invalidCommandCount s1 \<ge> MAX_INVALID_COMMANDS then
                  (println MultipleInvalidCommands s1)\<lparr>invalidCommandCount := 0\<rparr>
                else s1)"





text \<open>The two output updates of one pass, each with its own reading of the clock.\<close>

definition render :: "32 word \<Rightarrow> 32 word \<Rightarrow> tmp36 \<Rightarrow> tmp36" where
  "render tLed tBuzzer s = updateBuzzerAlerts tBuzzer (updateLEDIndicators tLed s)"

text \<open>
  A sensor tick as \<^verbatim>\<open>loop()\<close> performs it: the read, then the evaluation. A list of
  readings drives a list of ticks.
\<close>

definition sensorTick :: "real \<times> bool \<Rightarrow> tmp36 \<Rightarrow> tmp36" where
  "sensorTick r s = evaluateFireRisk (readSensorsWithValidation (fst r) (snd r) s)"

fun sensorTicks :: "(real \<times> bool) list \<Rightarrow> tmp36 \<Rightarrow> tmp36" where
  "sensorTicks [] s = s"
| "sensorTicks (r # rs) s = sensorTicks rs (sensorTick r s)"

section \<open>The DHT22 sketch\<close>

text \<open>
  Names that the DHT22 sketch shares with the TMP36 sketch carry the prefix \<open>dht_\<close>;
  \<^verbatim>\<open>BUZZER\<close> and \<^verbatim>\<open>RELAY\<close> are the pins 11 and 12 that the TMP36 sketch calls
  \<^verbatim>\<open>BUZZER_PIN\<close> and \<^verbatim>\<open>RELAY_PIN\<close>. The risk level and the mode are bytes in this
  sketch (0 = normal, 1 = warning, 2 = danger; 0 = auto, 1 = demo).
\<close>

abbreviation BUZZER :: pin where "BUZZER \<equiv> BUZZER_PIN"
abbreviation RELAY :: pin where "RELAY \<equiv> RELAY_PIN"

datatype dht_msg =
    InvalidSensorData "16 word"
  | EnteringSafetyMode
  | SensorTamperingAlert
  | InvalidCommandsAlert
  | StateCorruption
  | DangerActivated
  | WarningActivated
  | NormalRestored
  | SuppressionFailed
  | SuppressionAuthenticated
  | SuppressionCompleted
  | InvalidCommandLength
  | DemoNormalAuthenticated
  | DemoWarningAuthenticated
  | DemoDangerAuthenticated
  | MotionToggled bool
  | ModeAuto
  | ModeDemo
  | UnknownCommandRejected
  | TestCommandFailed
  | SystemResetAuthenticated
  | HelpReport
  | StatusReport
  | StatsReport
  | SecurityReport
  | LogReport

record dht = "dht_msg board" +
  riskLevel :: "8 word"
  sysMode :: "8 word"
  currentTemp :: real
  demoTemp :: real
  lastValidTemp :: real
  motion :: bool
  dht_demoMotion :: bool
  suppressed :: bool
  dht_sensorErrorCount :: "16 word"
  dht_invalidCommandCount :: "16 word"
  lastDataCheck :: "32 word"
  lastSensor :: "32 word"
  lastLed :: "32 word"
  lastBuzz :: "32 word"
  lastLog :: "32 word"
  ledState :: bool
  buzzState :: bool
  readings :: "16 word"
  warnings :: "16 word"
  dangers :: "16 word"

definition TEMP_WARN :: real where "TEMP_WARN = 50"
definition dht_TEMP_DANGER :: real where "dht_TEMP_DANGER = 60"

text \<open>
  \<^verbatim>\<open>const unsigned int MAX_TEMP = 100; const unsigned int MIN_TEMP = -20;\<close>
  The initialiser \<open>- 20\<close> is converted to the unsigned type, that is, taken modulo
  \<open>2 ^ 16\<close>.
\<close>

definition MAX_TEMP :: "16 word" where "MAX_TEMP = 100"
definition MIN_TEMP :: "16 word" where "MIN_TEMP = - 20"
definition DATA_CHECK_INTERVAL :: "16 word" where "DATA_CHECK_INTERVAL = 5000"

definition SENSOR_TIME :: "32 word" where "SENSOR_TIME = 1000"
definition LED_SLOW :: "32 word" where "LED_SLOW = 1000"
definition LED_FAST :: "32 word" where "LED_FAST = 200"
definition BUZZ_TIME :: "32 word" where "BUZZ_TIME = 2000"

definition dht_initialState :: dht where
  "dht_initialState =
     \<lparr>pinRed = False, pinGreen = True, pinYellow = False, pinBuzzer = False,
      pinRelay = False, effects = [],
      riskLevel = 0, sysMode = 0, currentTemp = 25, demoTemp = 25, lastValidTemp = 25,
      motion = False, dht_demoMotion = False, suppressed = False,
      dht_sensorErrorCount = 0, dht_invalidCommandCount = 0, lastDataCheck = 0,
      lastSensor = 0, lastLed = 0, lastBuzz = 0, lastLog = 0,
      ledState = False, buzzState = False, readings = 0, warnings = 0, dangers = 0\<rparr>"

text \<open>
  The data integrity check of \<^verbatim>\<open>readSensorsSecure\<close>,
  \<^verbatim>\<open>isnan(temp) || temp < MIN_TEMP || temp > MAX_TEMP\<close>. The float is compared with an
  \<^verbatim>\<open>unsigned int\<close>, which C converts to float: the value \<open>unat\<close> of the word.
\<close>

definition invalidReading :: "real option \<Rightarrow> bool" where
  "invalidReading temp =
     (case temp of
        None \<Rightarrow> True
      | Some t \<Rightarrow> t < real (unat MIN_TEMP) \<or> t > real (unat MAX_TEMP))"

text \<open>
  \<^verbatim>\<open>readSensorsSecure\<close>; \<open>temp\<close> is what \<^verbatim>\<open>dht.readTemperature()\<close> returns
  (\<open>None\<close> for NaN) and \<open>pir\<close> what \<^verbatim>\<open>digitalRead(PIR_PIN)\<close> returns. The
  else-branch of the integrity check is entered only with a reading that is not NaN,
  where \<open>the temp\<close> is that reading.
\<close>

definition readSensorsSecure :: "real option \<Rightarrow> bool \<Rightarrow> dht \<Rightarrow> dht" where
  "readSensorsSecure temp pir s =
     (let s0 = s\<lparr>readings := readings s + 1\<rparr>
      in if sysMode s0 = 1 then
           s0\<lparr>currentTemp := demoTemp s0, motion := dht_demoMotion s0\<rparr>
         else
           (if invalidReading temp then
              let s1 = s0\<lparr>dht_sensorErrorCount := dht_sensorErrorCount s0 + 1\<rparr>;
                  s2 = println (InvalidSensorData (dht_sensorErrorCount s1)) s1;
                  s3 = s2\<lparr>currentTemp := lastValidTemp s2\<rparr>
              in if dht_sensorErrorCount s3 > 5 then
                   (println EnteringSafetyMode s3)\<lparr>riskLevel := 1\<rparr>
                 else s3
            else
              s0\<lparr>currentTemp := the temp, lastValidTemp := the temp,
                 dht_sensorErrorCount := 0\<rparr>)
           \<lparr>motion := pir\<rparr>)"

definition validateSystemIntegrity :: "dht \<Rightarrow> dht" where
  "validateSystemIntegrity s =
     (let s1 = (if dht_sensorErrorCount s > 10 then println SensorTamperingAlert s else s);
          s2 = (if dht_invalidCommandCount s1 > 5 then
                  (println InvalidCommandsAlert s1)\<lparr>dht_invalidCommandCount := 0\<rparr>
                else s1)
      in if riskLevel s2 > 2 then (println StateCorruption s2)\<lparr>riskLevel := 0\<rparr>
         else s2)"

definition checkRisk :: "dht \<Rightarrow> dht" where
  "checkRisk s =
     (let oldRisk = riskLevel s
      in if currentTemp s \<ge> dht_TEMP_DANGER then
           let s' = s\<lparr>riskLevel := 2\<rparr>
           in if oldRisk \<noteq> 2 then println DangerActivated (s'\<lparr>dangers := dangers s' + 1\<rparr>)
              else s'
         else if currentTemp s \<ge> TEMP_WARN then
           let s' = s\<lparr>riskLevel := 1\<rparr>
           in if oldRisk \<noteq> 1 then println WarningActivated (s'\<lparr>warnings := warnings s' + 1\<rparr>)
              else s'
         else
           let s' = s\<lparr>riskLevel := 0\<rparr>
           in if oldRisk \<noteq> 0 then println NormalRestored s' else s')"

text \<open>
  The \<^verbatim>\<open>switch (riskLevel)\<close> of \<^verbatim>\<open>updateLeds\<close> and of \<^verbatim>\<open>updateBuzzer\<close> has the
  cases 0, 1 and 2 and no default: any other byte falls through and nothing happens.
\<close>

definition updateLeds :: "32 word \<Rightarrow> dht \<Rightarrow> dht" where
  "updateLeds now s =
     (if riskLevel s = 0 then
        digitalWrite LED_RED False (digitalWrite LED_YELLOW False
          (digitalWrite LED_GREEN True s))
      else if riskLevel s = 1 then
        (if now - lastLed s \<ge> LED_SLOW then
           let s1 = s\<lparr>ledState := \<not> ledState s\<rparr>
           in (digitalWrite LED_RED False (digitalWrite LED_YELLOW (ledState s1)
                (digitalWrite LED_GREEN False s1)))\<lparr>lastLed := now\<rparr>
         else s)
      else if riskLevel s = 2 then
        (if now - lastLed s \<ge> LED_FAST then
           let s1 = s\<lparr>ledState := \<not> ledState s\<rparr>
           in (digitalWrite LED_RED (ledState s1) (digitalWrite LED_YELLOW False
                (digitalWrite LED_GREEN False s1)))\<lparr>lastLed := now\<rparr>
         else s)
      else s)"

definition updateBuzzer :: "32 word \<Rightarrow> dht \<Rightarrow> dht" where
  "updateBuzzer now s =
     (if riskLevel s = 0 then digitalWrite BUZZER False s
      else if riskLevel s = 1 then
        (if now - lastBuzz s \<ge> BUZZ_TIME then
           let s1 = s\<lparr>buzzState := \<not> buzzState s\<rparr>
           in (digitalWrite BUZZER (buzzState s1) s1)\<lparr>lastBuzz := now\<rparr>
         else s)
      else if riskLevel s = 2 then digitalWrite BUZZER True s
      else s)"

definition dht_validateSuppressionCommand :: "dht \<Rightarrow> bool \<times> dht" where
  "dht_validateSuppressionCommand s =
     (if currentTemp s \<ge> dht_TEMP_DANGER \<and> readings s > 5 then (True, s)
      else (False, println SuppressionFailed s))"

definition activateSuppression :: "dht \<Rightarrow> dht" where
  "activateSuppression s =
     (let s1 = println SuppressionAuthenticated s;
          s2 = digitalWrite RELAY True s1;
          s3 = s2\<lparr>suppressed := True\<rparr>;
          s4 = flashAll 3 s3;
          s5 = delay 2000 s4;
          s6 = digitalWrite RELAY False s5
      in println SuppressionCompleted s6)"

definition checkSuppression :: "dht \<Rightarrow> dht" where
  "checkSuppression s =
     (if riskLevel s = 2 \<and> \<not> suppressed s then
        (case dht_validateSuppressionCommand s of
           (True, s1) \<Rightarrow> activateSuppression s1
         | (False, s1) \<Rightarrow> s1)
      else s)"

definition validateTestCommand :: "dht \<Rightarrow> bool \<times> dht" where
  "validateTestCommand s =
     (if readings s > 2 then (True, s) else (False, println TestCommandFailed s))"

definition dht_resetSystemSecure :: "dht \<Rightarrow> dht" where
  "dht_resetSystemSecure s =
     (let s1 = println SystemResetAuthenticated s;
          s2 = s1\<lparr>riskLevel := 0, sysMode := 0, suppressed := False, demoTemp := 25,
                 dht_demoMotion := False, dht_sensorErrorCount := 0,
                 dht_invalidCommandCount := 0\<rparr>
      in digitalWrite LED_GREEN True (digitalWrite LED_YELLOW False
           (digitalWrite LED_RED False (digitalWrite BUZZER False
             (digitalWrite RELAY False s2)))))"

text \<open>
  \<^verbatim>\<open>handleSecureCommands\<close>; the argument is as for \<open>handleSerialCommands\<close>: the
  line after \<^verbatim>\<open>trim()\<close> and \<^verbatim>\<open>toUpperCase()\<close>, or \<open>None\<close> when nothing is pending.
\<close>

definition handleSecureCommands :: "string option \<Rightarrow> dht \<Rightarrow> dht" where
  "handleSecureCommands line s =
     (case line of
        None \<Rightarrow> s
      | Some cmd \<Rightarrow>
          if length cmd > 20 \<or> length cmd < 1 then
            println InvalidCommandLength
              (s\<lparr>dht_invalidCommandCount := dht_invalidCommandCount s + 1\<rparr>)
          else if cmd = ''HELP'' then println HelpReport s
          else if cmd = ''STATUS'' then println StatusReport s
          else if cmd = ''TEST_NORMAL'' then
            (case validateTestCommand s of
               (True, s1) \<Rightarrow>
                 println DemoNormalAuthenticated (s1\<lparr>sysMode := 1, demoTemp := 25\<rparr>)
             | (False, s1) \<Rightarrow> s1)
          else if cmd = ''TEST_WARNING'' then
            (case validateTestCommand s of
               (True, s1) \<Rightarrow>
                 println DemoWarningAuthenticated (s1\<lparr>sysMode := 1, demoTemp := 55\<rparr>)
             | (False, s1) \<Rightarrow> s1)
          else if cmd = ''TEST_DANGER'' then
            (case validateTestCommand s of
               (True, s1) \<Rightarrow>
                 println DemoDangerAuthenticated (s1\<lparr>sysMode := 1, demoTemp := 70\<rparr>)
             | (False, s1) \<Rightarrow> s1)
          else if cmd = ''MOTION'' then
            (let s1 = s\<lparr>dht_demoMotion := \<not> dht_demoMotion s\<rparr>
             in println (MotionToggled (dht_demoMotion s1)) s1)
          else if cmd = ''RESET'' then dht_resetSystemSecure s
          else if cmd = ''AUTO'' then println ModeAuto (s\<lparr>sysMode := 0\<rparr>)
          else if cmd = ''DEMO'' then println ModeDemo (s\<lparr>sysMode := 1\<rparr>)
          else if cmd = ''STATS'' then println StatsReport s
          else if cmd = ''SECURITY'' then println SecurityReport s
          else
            println UnknownCommandRejected
              (s\<lparr>dht_invalidCommandCount := dht_invalidCommandCount s + 1\<rparr>))"

text \<open>
  \<^verbatim>\<open>printSecurityStatus\<close> reports \<^verbatim>\<open>System Integrity\<close> as
  \<^verbatim>\<open>sensorErrorCount < 3 ? "GOOD" : "DEGRADED"\<close>; the sketch keeps no integrity flag
  beyond this.
\<close>

definition systemIntegrityGood :: "dht \<Rightarrow> bool" where
  "systemIntegrityGood s = (dht_sensorErrorCount s < 3)"

record dht_inputs =
  nowLoop :: "32 word"
  nowLeds :: "32 word"
  nowBuzzer :: "32 word"
  dhtReading :: "real option"
  pirReading :: bool
  commandLine :: "string option"

definition dht_loop :: "dht_inputs \<Rightarrow> dht \<Rightarrow> dht" where
  "dht_loop i s =
     (let now = nowLoop i;
          s1 = (if now - lastSensor s \<ge> SENSOR_TIME then
                  (checkRisk (readSensorsSecure (dhtReading i) (pirReading i) s))
                    \<lparr>lastSensor := now\<rparr>
                else s);
          s2 = (if now - lastDataCheck s1 \<ge> ucast DATA_CHECK_INTERVAL then
                  (validateSystemIntegrity s1)\<lparr>lastDataCheck := now\<rparr>
                else s1);
          s3 = updateLeds (nowLeds i) s2;
          s4 = updateBuzzer (nowBuzzer i) s3;
          s5 = checkSuppression s4;
          s6 = handleSecureCommands (commandLine i) s5
      in if now - lastLog s6 \<ge> 3000 then (println LogReport s6)\<lparr>lastLog := now\<rparr>
         else s6)"

fun dht_run :: "dht_inputs list \<Rightarrow> dht \<Rightarrow> dht" where
  "dht_run [] s = s"
| "dht_run (i # rest) s = dht_run rest (dht_loop i s)"

definition dht_render :: "32 word \<Rightarrow> 32 word \<Rightarrow> dht \<Rightarrow> dht" where
  "dht_render tLed tBuzzer s = updateBuzzer tBuzzer (updateLeds tLed s)"

section \<open>Runs, episodes and example states\<close>

text \<open>A state with the record of effects emptied: what is left is the state proper.\<close>

definition strip :: "('m, 'z) board_scheme \<Rightarrow> ('m, 'z) board_scheme" where
  "strip s = s\<lparr>effects := []\<rparr>"

text \<open>
  A risk evaluation at a given temperature, and a sequence of such evaluations, in
  either sketch.
\<close>

definition evaluateAt :: "real \<Rightarrow> tmp36 \<Rightarrow> tmp36" where
  "evaluateAt t s = evaluateFireRisk (s\<lparr>currentTemperature := t\<rparr>)"

fun evaluations :: "real list \<Rightarrow> tmp36 \<Rightarrow> tmp36" where
  "evaluations [] s = s"
| "evaluations (t # ts) s = evaluations ts (evaluateAt t s)"

definition checkRiskAt :: "real \<Rightarrow> dht \<Rightarrow> dht" where
  "checkRiskAt t d = checkRisk (d\<lparr>currentTemp := t\<rparr>)"

fun riskChecks :: "real list \<Rightarrow> dht \<Rightarrow> dht" where
  "riskChecks [] d = d"
| "riskChecks (t # ts) d = riskChecks ts (checkRiskAt t d)"





text \<open>
  Example states and inputs. \<open>dangerState\<close> is the TMP36 sketch in Demo mode at 70
  degrees after ten readings, at Danger with the latch clear; \<open>hotTick\<close> is a pass at
  1000 ms with no command pending, \<open>resetTick\<close> a pass that receives \<^verbatim>\<open>RESET\<close>. The
  \<open>dht_\<close> ones are the same for the DHT22 sketch.
\<close>

definition dangerState :: tmp36 where
  "dangerState =
     initialState\<lparr>currentRiskLevel := DANGER, systemMode := DEMO_MODE,
       currentTemperature := 70, demoTemperature := 70, totalSensorReadings := 10,
       dangerActivations := 1\<rparr>"



definition dht_dangerState :: dht where
  "dht_dangerState =
     dht_initialState\<lparr>riskLevel := 2, sysMode := 1, currentTemp := 70, demoTemp := 70,
       readings := 10, dangers := 1\<rparr>"

definition dht_hotTick :: dht_inputs where
  "dht_hotTick = \<lparr>nowLoop = 1000, nowLeds = 1000, nowBuzzer = 1000,
     dhtReading = Some 20, pirReading = False, commandLine = None\<rparr>"




text \<open>
  How often a message has been printed so far, and whether a pass of the DHT22 loop
  finds its periodic integrity check due.
\<close>

definition printed :: "'m \<Rightarrow> ('m, 'z) board_scheme \<Rightarrow> nat" where
  "printed m s = length (filter (\<lambda>e. e = Print m) (effects s))"

definition integrityCheckDue :: "dht_inputs \<Rightarrow> dht \<Rightarrow> bool" where
  "integrityCheckDue i d = (nowLoop i - lastDataCheck d \<ge> ucast DATA_CHECK_INTERVAL)"

text \<open>A pass of the DHT22 loop at 5000 ms, when the first integrity check is due.\<close>

definition dht_checkTick :: dht_inputs where
  "dht_checkTick = \<lparr>nowLoop = 5000, nowLeds = 5000, nowBuzzer = 5000,
     dhtReading = Some 20, pirReading = False, commandLine = None\<rparr>"








section \<open>Basic facts about the board operations\<close>

lemmas board_ops = digitalWrite_def println_def delay_def

lemma relayFirings_println [simp]: "relayFirings (println m s) = relayFirings s"
  by (simp add: relayFirings_def println_def)

lemma relayFirings_delay [simp]: "relayFirings (delay n s) = relayFirings s"
  by (simp add: relayFirings_def delay_def)

lemma relayFirings_digitalWrite [simp]:
  "relayFirings (digitalWrite p v s) =
     (if p = RELAY_PIN \<and> v then relayFirings s + 1 else relayFirings s)"
  by (cases p) (simp_all add: relayFirings_def digitalWrite_def)

lemma relayFirings_flashAll [simp]: "relayFirings (flashAll n s) = relayFirings s"
  by (induction n arbitrary: s) simp_all

section \<open>Risk evaluation\<close>

lemma evaluateFireRisk_level:
  "currentRiskLevel (evaluateFireRisk s) =
     (if currentTemperature s \<ge> TEMP_DANGER then DANGER
      else if currentTemperature s \<ge> TEMP_WARNING then WARNING else NORMAL)"
  by (simp add: evaluateFireRisk_def Let_def println_def)

lemma checkRisk_level:
  "riskLevel (checkRisk d) =
     (if currentTemp d \<ge> dht_TEMP_DANGER then 2
      else if currentTemp d \<ge> TEMP_WARN then 1 else 0)"
  by (simp add: checkRisk_def Let_def println_def)

text \<open>
  C1. For every temperature \<open>t\<close>, the evaluation step of either sketch sets the level to
  Normal when \<open>t < 50\<close>, to Warning when \<open>50 \<le> t < 60\<close> and to Danger when \<open>60 \<le> t\<close>,
  whatever the state was before.
\<close>

theorem risk_level_thresholds:
  "(t < 50 \<longrightarrow>
      currentRiskLevel (evaluateFireRisk (s\<lparr>currentTemperature := t\<rparr>)) = NORMAL \<and>
      riskLevel (checkRisk (d\<lparr>currentTemp := t\<rparr>)) = 0) \<and>
   (50 \<le> t \<and> t < 60 \<longrightarrow>
      currentRiskLevel (evaluateFireRisk (s\<lparr>currentTemperature := t\<rparr>)) = WARNING \<and>
      riskLevel (checkRisk (d\<lparr>currentTemp := t\<rparr>)) = 1) \<and>
   (60 \<le> t \<longrightarrow>
      currentRiskLevel (evaluateFireRisk (s\<lparr>currentTemperature := t\<rparr>)) = DANGER \<and>
      riskLevel (checkRisk (d\<lparr>currentTemp := t\<rparr>)) = 2)"
  by (simp add: evaluateFireRisk_level checkRisk_level TEMP_DANGER_def TEMP_WARNING_def
      dht_TEMP_DANGER_def TEMP_WARN_def)

text \<open>The boundaries: exactly 50.0 gives Warning and exactly 60.0 gives Danger.\<close>

theorem risk_level_thresholds_witness:
  "currentRiskLevel (evaluateFireRisk (initialState\<lparr>currentTemperature := 50\<rparr>)) = WARNING \<and>
   riskLevel (checkRisk (dht_initialState\<lparr>currentTemp := 50\<rparr>)) = 1 \<and>
   currentRiskLevel (evaluateFireRisk (initialState\<lparr>currentTemperature := 60\<rparr>)) = DANGER \<and>
   riskLevel (checkRisk (dht_initialState\<lparr>currentTemp := 60\<rparr>)) = 2 \<and>
   currentRiskLevel (evaluateFireRisk (initialState\<lparr>currentTemperature := 49.9\<rparr>)) = NORMAL \<and>
   riskLevel (checkRisk (dht_initialState\<lparr>currentTemp := 49.9\<rparr>)) = 0"
  using risk_level_thresholds [of 50 initialState dht_initialState]
    risk_level_thresholds [of 60 initialState dht_initialState]
    risk_level_thresholds [of "49.9" initialState dht_initialState]
  by simp

section \<open>Output rendering\<close>

lemma updateLEDIndicators_strip:
  "strip (updateLEDIndicators t (strip s)) = strip (updateLEDIndicators t s)"
  by (cases "currentRiskLevel s")
     (simp_all add: strip_def updateLEDIndicators_def board_ops Let_def)

lemma updateBuzzerAlerts_strip:
  "strip (updateBuzzerAlerts t (strip s)) = strip (updateBuzzerAlerts t s)"
  by (cases "currentRiskLevel s")
     (simp_all add: strip_def updateBuzzerAlerts_def board_ops Let_def)

lemma updateLEDIndicators_twice:
  "strip (updateLEDIndicators t (updateLEDIndicators t s)) = strip (updateLEDIndicators t s)"
  by (cases "currentRiskLevel s")
     (simp_all add: strip_def updateLEDIndicators_def board_ops Let_def
        LED_SLOW_BLINK_def LED_FAST_BLINK_def)

lemma updateBuzzerAlerts_twice:
  "strip (updateBuzzerAlerts t (updateBuzzerAlerts t s)) = strip (updateBuzzerAlerts t s)"
  by (cases "currentRiskLevel s")
     (simp_all add: strip_def updateBuzzerAlerts_def board_ops Let_def
        BUZZER_BEEP_INTERVAL_def)

lemma updateLEDIndicators_updateBuzzerAlerts:
  "strip (updateLEDIndicators t (updateBuzzerAlerts u s)) =
   strip (updateBuzzerAlerts u (updateLEDIndicators t s))"
  by (cases "currentRiskLevel s")
     (simp_all add: strip_def updateLEDIndicators_def updateBuzzerAlerts_def board_ops Let_def)

lemma render_twice: "strip (render t u (render t u s)) = strip (render t u s)"
proof -
  let ?L = "updateLEDIndicators t" and ?B = "updateBuzzerAlerts u"
  have "strip (?B (?L (?B (?L s)))) = strip (?B (strip (?L (?B (?L s)))))"
    by (simp add: updateBuzzerAlerts_strip)
  also have "\<dots> = strip (?B (strip (?B (?L (?L s)))))"
    by (simp add: updateLEDIndicators_updateBuzzerAlerts)
  also have "\<dots> = strip (?B (?B (?L (?L s))))"
    by (simp add: updateBuzzerAlerts_strip)
  also have "\<dots> = strip (?B (?L (?L s)))"
    by (simp add: updateBuzzerAlerts_twice)
  also have "\<dots> = strip (?B (strip (?L (?L s))))"
    by (simp add: updateBuzzerAlerts_strip)
  also have "\<dots> = strip (?B (strip (?L s)))"
    by (simp add: updateLEDIndicators_twice)
  also have "\<dots> = strip (?B (?L s))"
    by (simp add: updateBuzzerAlerts_strip)
  finally show ?thesis by (simp add: render_def)
qed

lemma riskLevel_cases:
  obtains (normal) "riskLevel d = 0" | (warning) "riskLevel d = 1" | (danger) "riskLevel d = 2"
  | (other) "riskLevel d \<noteq> 0" "riskLevel d \<noteq> 1" "riskLevel d \<noteq> 2"
  by blast

lemma updateLeds_strip: "strip (updateLeds t (strip d)) = strip (updateLeds t d)"
  by (cases d rule: riskLevel_cases)
     (simp_all add: strip_def updateLeds_def board_ops Let_def)

lemma updateBuzzer_strip: "strip (updateBuzzer t (strip d)) = strip (updateBuzzer t d)"
  by (cases d rule: riskLevel_cases)
     (simp_all add: strip_def updateBuzzer_def board_ops Let_def)

lemma updateLeds_twice: "strip (updateLeds t (updateLeds t d)) = strip (updateLeds t d)"
  by (cases d rule: riskLevel_cases)
     (simp_all add: strip_def updateLeds_def board_ops Let_def LED_SLOW_def LED_FAST_def)

lemma updateBuzzer_twice: "strip (updateBuzzer t (updateBuzzer t d)) = strip (updateBuzzer t d)"
  by (cases d rule: riskLevel_cases)
     (simp_all add: strip_def updateBuzzer_def board_ops Let_def BUZZ_TIME_def)

lemma updateLeds_updateBuzzer:
  "strip (updateLeds t (updateBuzzer u d)) = strip (updateBuzzer u (updateLeds t d))"
  by (cases d rule: riskLevel_cases)
     (simp_all add: strip_def updateLeds_def updateBuzzer_def board_ops Let_def)
lemma dht_render_twice: "strip (dht_render t u (dht_render t u d)) = strip (dht_render t u d)"
proof -
  let ?L = "updateLeds t" and ?B = "updateBuzzer u"
  have "strip (?B (?L (?B (?L d)))) = strip (?B (strip (?L (?B (?L d)))))"
    by (simp add: updateBuzzer_strip)
  also have "\<dots> = strip (?B (strip (?B (?L (?L d)))))"
    by (simp add: updateLeds_updateBuzzer)
  also have "\<dots> = strip (?B (?B (?L (?L d))))"
    by (simp add: updateBuzzer_strip)
  also have "\<dots> = strip (?B (?L (?L d)))"
    by (simp add: updateBuzzer_twice)
  also have "\<dots> = strip (?B (strip (?L (?L d))))"
    by (simp add: updateBuzzer_strip)
  also have "\<dots> = strip (?B (strip (?L d)))"
    by (simp add: updateLeds_twice)
  also have "\<dots> = strip (?B (?L d))"
    by (simp add: updateBuzzer_strip)
  finally show ?thesis by (simp add: dht_render_def)
qed

text \<open>
  C10. Rendering twice with the same readings of the clock leaves every pin level, both
  toggle states, both toggle timestamps and every other variable exactly as rendering
  once does; the two states differ at most in the record of the writes performed.
\<close>

theorem render_idempotent:
  "(render tLed tBuzzer (render tLed tBuzzer s))\<lparr>effects := []\<rparr> =
     (render tLed tBuzzer s)\<lparr>effects := []\<rparr> \<and>
   (dht_render tLed tBuzzer (dht_render tLed tBuzzer d))\<lparr>effects := []\<rparr> =
     (dht_render tLed tBuzzer d)\<lparr>effects := []\<rparr>"
  using render_twice [of tLed tBuzzer s] dht_render_twice [of tLed tBuzzer d]
  by (simp add: strip_def)

section \<open>Sensor validation in the TMP36 sketch\<close>

lemma evaluateFireRisk_frame:
  "evaluateFireRisk s =
     s\<lparr>currentRiskLevel := currentRiskLevel (evaluateFireRisk s),
       warningActivations := warningActivations (evaluateFireRisk s),
       dangerActivations := dangerActivations (evaluateFireRisk s),
       suppressionActivated := suppressionActivated (evaluateFireRisk s),
       effects := effects (evaluateFireRisk s)\<rparr>"
  by (simp add: evaluateFireRisk_def Let_def println_def)

lemma evaluateFireRisk_sensor_fields [simp]:
  "sensorErrorCount (evaluateFireRisk s) = sensorErrorCount s"
  "systemIntegrityOK (evaluateFireRisk s) = systemIntegrityOK s"
  "systemMode (evaluateFireRisk s) = systemMode s"
  "currentTemperature (evaluateFireRisk s) = currentTemperature s"
  "lastValidTemperature (evaluateFireRisk s) = lastValidTemperature s"
  "totalSensorReadings (evaluateFireRisk s) = totalSensorReadings s"
  by (subst evaluateFireRisk_frame, simp)+

lemma readTMP36Temperature_rejected:
  assumes "t < TEMP_MIN_VALID \<or> TEMP_MAX_VALID < t"
  shows "readTMP36Temperature t s =
     s\<lparr>sensorErrorCount := sensorErrorCount s + 1,
       currentTemperature := lastValidTemperature s,
       systemIntegrityOK := systemIntegrityOK s \<and> sensorErrorCount s + 1 < MAX_SENSOR_ERRORS,
       effects := effects s @
         Print (InvalidTemperatureReading t (sensorErrorCount s + 1)) #
         (if sensorErrorCount s + 1 \<ge> MAX_SENSOR_ERRORS then [Print MultipleSensorFailures]
          else [])\<rparr>"
proof -
  have inv: "(TEMP_MIN_VALID \<le> t \<and> t \<le> TEMP_MAX_VALID) = False" using assms by auto
  show ?thesis
  proof (cases "sensorErrorCount s + 1 \<ge> MAX_SENSOR_ERRORS")
    case True
    then have "\<not> sensorErrorCount s + 1 < MAX_SENSOR_ERRORS" by simp
    with True show ?thesis
      by (simp add: readTMP36Temperature_def inv Let_def println_def)
  next
    case False
    then have "sensorErrorCount s + 1 < MAX_SENSOR_ERRORS" by simp
    with False show ?thesis
      by (simp add: readTMP36Temperature_def inv Let_def println_def)
  qed
qed

lemma readTMP36Temperature_accepted:
  assumes "TEMP_MIN_VALID \<le> t" "t \<le> TEMP_MAX_VALID"
  shows "readTMP36Temperature t s =
     s\<lparr>currentTemperature := t, lastValidTemperature := t, sensorErrorCount := 0,
       systemIntegrityOK := True\<rparr>"
  using assms by (simp add: readTMP36Temperature_def)

text \<open>
  In the TMP36 sketch an Auto-mode read of an out-of-range temperature substitutes the
  last accepted reading, leaves that reading in place and adds 1 to the 8-bit error
  counter (so 255 is followed by 0).
\<close>

lemma tmp36_read_rejected:
  assumes "systemMode s = AUTO_MODE" "t < TEMP_MIN_VALID \<or> TEMP_MAX_VALID < t"
  shows "currentTemperature (readSensorsWithValidation t p s) = lastValidTemperature s"
    and "lastValidTemperature (readSensorsWithValidation t p s) = lastValidTemperature s"
    and "sensorErrorCount (readSensorsWithValidation t p s) = sensorErrorCount s + 1"
    and "systemIntegrityOK (readSensorsWithValidation t p s) =
           (systemIntegrityOK s \<and> sensorErrorCount s + 1 < MAX_SENSOR_ERRORS)"
    and "systemMode (readSensorsWithValidation t p s) = AUTO_MODE"
  using assms
  by (simp_all add: readSensorsWithValidation_def Let_def readTMP36Temperature_rejected)

text \<open>An in-range read is taken over and clears the counter.\<close>

lemma tmp36_read_accepted:
  assumes "systemMode s = AUTO_MODE" "TEMP_MIN_VALID \<le> t" "t \<le> TEMP_MAX_VALID"
  shows "currentTemperature (readSensorsWithValidation t p s) = t"
    and "lastValidTemperature (readSensorsWithValidation t p s) = t"
    and "sensorErrorCount (readSensorsWithValidation t p s) = 0"
    and "systemIntegrityOK (readSensorsWithValidation t p s)"
    and "systemMode (readSensorsWithValidation t p s) = AUTO_MODE"
  using assms
  by (simp_all add: readSensorsWithValidation_def Let_def readTMP36Temperature_accepted)

lemma sensorTick_rejected:
  assumes "systemMode s = AUTO_MODE" "fst r < TEMP_MIN_VALID \<or> TEMP_MAX_VALID < fst r"
  shows "sensorErrorCount (sensorTick r s) = sensorErrorCount s + 1"
    and "systemIntegrityOK (sensorTick r s) =
           (systemIntegrityOK s \<and> sensorErrorCount s + 1 < MAX_SENSOR_ERRORS)"
    and "systemMode (sensorTick r s) = AUTO_MODE"
  using assms by (simp_all add: sensorTick_def tmp36_read_rejected)

lemma sensorTick_accepted:
  assumes "systemMode s = AUTO_MODE" "TEMP_MIN_VALID \<le> fst r" "fst r \<le> TEMP_MAX_VALID"
  shows "sensorErrorCount (sensorTick r s) = 0"
    and "systemIntegrityOK (sensorTick r s)"
  using assms by (simp_all add: sensorTick_def tmp36_read_accepted)

text \<open>
  C5. In Auto mode, from a state whose integrity flag is set and whose error counter is
  0, five sensor ticks with rejected readings leave the flag clear; it was still set
  after each of the first four. One more tick with an in-range reading sets the flag
  again and the counter to 0.
\<close>

theorem integrity_lost_after_five_rejections:
  assumes "systemMode s = AUTO_MODE" and "systemIntegrityOK s" and "sensorErrorCount s = 0"
    and "\<forall>r \<in> set [r1, r2, r3, r4, r5]. fst r < TEMP_MIN_VALID \<or> TEMP_MAX_VALID < fst r"
    and "TEMP_MIN_VALID \<le> t" and "t \<le> TEMP_MAX_VALID"
  shows "systemIntegrityOK (sensorTicks [r1, r2, r3, r4] s) \<and>
         \<not> systemIntegrityOK (sensorTicks [r1, r2, r3, r4, r5] s) \<and>
         systemIntegrityOK (sensorTick (t, p) (sensorTicks [r1, r2, r3, r4, r5] s)) \<and>
         sensorErrorCount (sensorTick (t, p) (sensorTicks [r1, r2, r3, r4, r5] s)) = 0"
proof -
  let ?s1 = "sensorTick r1 s"
  let ?s2 = "sensorTick r2 ?s1"
  let ?s3 = "sensorTick r3 ?s2"
  let ?s4 = "sensorTick r4 ?s3"
  let ?s5 = "sensorTick r5 ?s4"
  have 1: "systemMode ?s1 = AUTO_MODE" "sensorErrorCount ?s1 = 1" "systemIntegrityOK ?s1"
    using assms by (simp_all add: sensorTick_rejected MAX_SENSOR_ERRORS_def)
  have 2: "systemMode ?s2 = AUTO_MODE" "sensorErrorCount ?s2 = 2" "systemIntegrityOK ?s2"
    using assms 1 by (simp_all add: sensorTick_rejected MAX_SENSOR_ERRORS_def)
  have 3: "systemMode ?s3 = AUTO_MODE" "sensorErrorCount ?s3 = 3" "systemIntegrityOK ?s3"
    using assms 2 by (simp_all add: sensorTick_rejected MAX_SENSOR_ERRORS_def)
  have 4: "systemMode ?s4 = AUTO_MODE" "sensorErrorCount ?s4 = 4" "systemIntegrityOK ?s4"
    using assms 3 by (simp_all add: sensorTick_rejected MAX_SENSOR_ERRORS_def)
  have 5: "systemMode ?s5 = AUTO_MODE" "\<not> systemIntegrityOK ?s5"
    using assms 4 by (simp_all add: sensorTick_rejected MAX_SENSOR_ERRORS_def)
  have 6: "systemIntegrityOK (sensorTick (t, p) ?s5)"
    "sensorErrorCount (sensorTick (t, p) ?s5) = 0"
    using assms 5 by (simp_all add: sensorTick_accepted)
  from 4 5 6 show ?thesis by simp
qed

theorem integrity_lost_after_five_rejections_witness:
  "systemIntegrityOK
     (sensorTicks [(200, False), (200, False), (200, False), (200, False)] initialState) \<and>
   \<not> systemIntegrityOK
     (sensorTicks [(200, False), (200, False), (200, False), (200, False), (200, False)]
        initialState) \<and>
   systemIntegrityOK (sensorTick (25, False)
     (sensorTicks [(200, False), (200, False), (200, False), (200, False), (200, False)]
        initialState)) \<and>
   sensorErrorCount (sensorTick (25, False)
     (sensorTicks [(200, False), (200, False), (200, False), (200, False), (200, False)]
        initialState)) = 0"
  using integrity_lost_after_five_rejections
    [of initialState "(200, False)" "(200, False)" "(200, False)" "(200, False)"
        "(200, False)" 25 False]
  by (simp add: initialState_def TEMP_MIN_VALID_def TEMP_MAX_VALID_def)

section \<open>Sensor validation in the DHT22 sketch\<close>

text \<open>
  C9. In the DHT22 sketch, an Auto-mode read whose reading is rejected and whose error
  count, once incremented, exceeds 5 leaves the risk level at 1 (Warning), whatever the
  level and the temperatures were.
\<close>

theorem safety_mode_forces_warning:
  assumes "sysMode d \<noteq> 1" and "invalidReading temp" and "dht_sensorErrorCount d + 1 > 5"
  shows "riskLevel (readSensorsSecure temp pir d) = 1"
  using assms by (simp add: readSensorsSecure_def Let_def println_def)

theorem safety_mode_forces_warning_witness:
  "sysMode (dht_initialState\<lparr>riskLevel := 2, currentTemp := 70, lastValidTemp := 70,
      dht_sensorErrorCount := 5\<rparr>) \<noteq> 1 \<and>
   invalidReading None \<and>
   dht_sensorErrorCount (dht_initialState\<lparr>riskLevel := 2, currentTemp := 70,
      lastValidTemp := 70, dht_sensorErrorCount := 5\<rparr>) + 1 > 5 \<and>
   riskLevel (readSensorsSecure None False
     (dht_initialState\<lparr>riskLevel := 2, currentTemp := 70, lastValidTemp := 70,
        dht_sensorErrorCount := 5\<rparr>)) = 1"
  using safety_mode_forces_warning
    [of "dht_initialState\<lparr>riskLevel := 2, currentTemp := 70, lastValidTemp := 70,
        dht_sensorErrorCount := 5\<rparr>" None False]
  by (simp add: dht_initialState_def invalidReading_def)

lemma MIN_TEMP_value: "unat MIN_TEMP = 65516"
  by (simp add: MIN_TEMP_def)

lemma MAX_TEMP_value: "unat MAX_TEMP = 100"
  by (simp add: MAX_TEMP_def)

text \<open>
  The lower bound lies above the upper bound, so the integrity check of the DHT22 sketch
  refuses every reading.
\<close>

lemma invalidReading_always: "invalidReading temp"
proof (cases temp)
  case None
  then show ?thesis by (simp add: invalidReading_def)
next
  case (Some t)
  have "t < 65516 \<or> 100 < t" by linarith
  with Some show ?thesis
    by (simp add: invalidReading_def MIN_TEMP_value MAX_TEMP_value)
qed

lemma readSensorsSecure_auto:
  assumes "sysMode d \<noteq> 1"
  shows "currentTemp (readSensorsSecure temp pir d) = lastValidTemp d"
    and "dht_sensorErrorCount (readSensorsSecure temp pir d) = dht_sensorErrorCount d + 1"
  using assms
  by (simp_all add: readSensorsSecure_def invalidReading_always Let_def println_def)

lemma readSensorsSecure_lastValidTemp [simp]:
  "lastValidTemp (readSensorsSecure temp pir d) = lastValidTemp d"
  by (simp add: readSensorsSecure_def invalidReading_always Let_def println_def)

lemma checkRisk_lastValidTemp [simp]: "lastValidTemp (checkRisk d) = lastValidTemp d"
  by (simp add: checkRisk_def Let_def println_def)

lemma validateSystemIntegrity_lastValidTemp [simp]:
  "lastValidTemp (validateSystemIntegrity d) = lastValidTemp d"
  by (simp add: validateSystemIntegrity_def Let_def println_def)

lemma updateLeds_lastValidTemp [simp]: "lastValidTemp (updateLeds t d) = lastValidTemp d"
  by (simp add: updateLeds_def Let_def board_ops)

lemma updateBuzzer_lastValidTemp [simp]: "lastValidTemp (updateBuzzer t d) = lastValidTemp d"
  by (simp add: updateBuzzer_def Let_def board_ops)

lemma flashAll_dht_fields [simp]:
  "lastValidTemp (flashAll n d) = lastValidTemp d"
  "suppressed (flashAll n d) = suppressed d"
  "riskLevel (flashAll n d) = riskLevel d"
  by (induction n arbitrary: d) (simp_all add: board_ops)

lemma checkSuppression_lastValidTemp [simp]:
  "lastValidTemp (checkSuppression d) = lastValidTemp d"
  by (simp add: checkSuppression_def dht_validateSuppressionCommand_def
      activateSuppression_def Let_def board_ops)

lemma handleSecureCommands_lastValidTemp [simp]:
  "lastValidTemp (handleSecureCommands line d) = lastValidTemp d"
  by (simp add: handleSecureCommands_def validateTestCommand_def dht_resetSystemSecure_def
      Let_def board_ops split: option.split)

lemma dht_loop_lastValidTemp [simp]: "lastValidTemp (dht_loop i d) = lastValidTemp d"
  by (simp add: dht_loop_def Let_def println_def)

lemma dht_run_lastValidTemp: "lastValidTemp (dht_run inps d) = lastValidTemp d"
  by (induction inps arbitrary: d) simp_all

text \<open>
  C6, as the sketch for the 16-bit \<^verbatim>\<open>unsigned int\<close> of the Arduino Uno has it.
  \<open>MIN_TEMP\<close> is 65516. The integrity check holds for every reading whatever, NaN
  included. So an Auto-mode read always substitutes the last valid temperature and adds
  1 to the 16-bit error counter, no read ever changes the last valid temperature, and
  after any number of passes of \<^verbatim>\<open>loop()\<close> from power-on that temperature is still
  25.0, which is then what every Auto-mode read makes the current temperature.
\<close>

theorem min_temp_wraps_every_reading_rejected:
  "unat MIN_TEMP = 65516 \<and>
   invalidReading temp \<and>
   (sysMode d \<noteq> 1 \<longrightarrow>
      currentTemp (readSensorsSecure temp pir d) = lastValidTemp d \<and>
      dht_sensorErrorCount (readSensorsSecure temp pir d) = dht_sensorErrorCount d + 1) \<and>
   lastValidTemp (readSensorsSecure temp pir d) = lastValidTemp d \<and>
   lastValidTemp (dht_run inps dht_initialState) = 25 \<and>
   (sysMode (dht_run inps dht_initialState) \<noteq> 1 \<longrightarrow>
      currentTemp (readSensorsSecure temp pir (dht_run inps dht_initialState)) = 25)"
  by (simp add: MIN_TEMP_value invalidReading_always readSensorsSecure_auto
      dht_run_lastValidTemp dht_initialState_def)

theorem min_temp_wraps_every_reading_rejected_witness:
  "unat MIN_TEMP = 65516 \<and> invalidReading (Some 25) \<and>
   currentTemp (readSensorsSecure (Some 30) False (dht_initialState\<lparr>currentTemp := 40\<rparr>)) = 25 \<and>
   dht_sensorErrorCount (readSensorsSecure (Some 30) False
     (dht_initialState\<lparr>currentTemp := 40\<rparr>)) = 1 \<and>
   lastValidTemp (readSensorsSecure (Some 30) False (dht_initialState\<lparr>currentTemp := 40\<rparr>)) = 25"
  using min_temp_wraps_every_reading_rejected
    [of "Some 30" "dht_initialState\<lparr>currentTemp := 40\<rparr>" False "[]"]
  by (simp add: dht_initialState_def invalidReading_always)

text \<open>
  Against C6 as stated: the bound is not 4294967276, and the error counter does not grow
  without bound: at 65535 the next rejected reading takes it to 0.
\<close>

theorem min_temp_not_32_bit:
  "unat MIN_TEMP \<noteq> 4294967276 \<and>
   dht_sensorErrorCount
     (readSensorsSecure (Some 25) False (dht_initialState\<lparr>dht_sensorErrorCount := 65535\<rparr>)) = 0"
  by (simp add: MIN_TEMP_value readSensorsSecure_auto dht_initialState_def)

text \<open>On a board whose \<^verbatim>\<open>unsigned int\<close> has 32 bits the same initialiser gives 4294967276.\<close>

lemma min_temp_on_32_bits: "unat (- 20 :: 32 word) = 4294967276"
  by simp

text \<open>
  C4, on the DHT22 sketch. From power-on in Auto mode a reading of 200 is rejected; the
  next reading, 30, lies inside the valid range, and yet the current and the last valid
  temperature stay 25 and the error counter goes on to 2.
\<close>

theorem dht_in_range_reading_rejected:
  "currentTemp (readSensorsSecure (Some 30) False
     (readSensorsSecure (Some 200) True dht_initialState)) = 25 \<and>
   lastValidTemp (readSensorsSecure (Some 30) False
     (readSensorsSecure (Some 200) True dht_initialState)) = 25 \<and>
   dht_sensorErrorCount (readSensorsSecure (Some 30) False
     (readSensorsSecure (Some 200) True dht_initialState)) = 2"
proof -
  let ?d1 = "readSensorsSecure (Some 200) True dht_initialState"
  have m: "sysMode dht_initialState \<noteq> 1" by (simp add: dht_initialState_def)
  have 1: "sysMode ?d1 \<noteq> 1"
    by (simp add: readSensorsSecure_def invalidReading_always Let_def println_def
        dht_initialState_def)
  have 2: "dht_sensorErrorCount ?d1 = 1" "lastValidTemp ?d1 = 25"
    using m by (simp_all add: readSensorsSecure_auto dht_initialState_def)
  from 1 2 show ?thesis by (simp add: readSensorsSecure_auto)
qed

section \<open>Unrecognised commands\<close>

lemma unknown_command_tests:
  assumes "cmd \<notin> set knownCommands"
  shows "(cmd = ''HELP'') = False" "(cmd = ''STATUS'') = False"
    "(cmd = ''TEST_NORMAL'') = False" "(cmd = ''TEST_WARNING'') = False"
    "(cmd = ''TEST_DANGER'') = False" "(cmd = ''MOTION'') = False"
    "(cmd = ''RESET'') = False" "(cmd = ''AUTO'') = False" "(cmd = ''DEMO'') = False"
    "(cmd = ''STATS'') = False" "(cmd = ''SECURITY'') = False"
  using assms unfolding knownCommands_def by auto

lemma processSecureCommand_unknown:
  assumes "cmd \<noteq> []" and "length cmd \<le> 15" and "cmd \<notin> set knownCommands"
  shows "processSecureCommand cmd s =
     s\<lparr>invalidCommandCount :=
         (if invalidCommandCount s + 1 \<ge> MAX_INVALID_COMMANDS then 0
          else invalidCommandCount s + 1),
       effects := effects s @ [Print (ProcessingCommand cmd), Print UnknownCommand] @
         (if invalidCommandCount s + 1 \<ge> MAX_INVALID_COMMANDS
          then [Print MultipleInvalidCommands] else [])\<rparr>"
proof -
  have len: "(length cmd = 0 \<or> 15 < length cmd) = False"
    using assms(1,2) by auto
  show ?thesis
    by (cases "invalidCommandCount s + 1 \<ge> MAX_INVALID_COMMANDS")
       (simp_all add: processSecureCommand_def len unknown_command_tests [OF assms(3)]
          Let_def println_def del: length_0_conv)
qed

lemma handleSecureCommands_unknown:
  assumes "1 \<le> length cmd" and "length cmd \<le> 20" and "cmd \<notin> set knownCommands"
  shows "handleSecureCommands (Some cmd) d =
     d\<lparr>dht_invalidCommandCount := dht_invalidCommandCount d + 1,
       effects := effects d @ [Print UnknownCommandRejected]\<rparr>"
proof -
  have len: "(20 < length cmd) = False" "(length cmd = 0) = False" "(cmd = []) = False"
    using assms(1,2) by auto
  show ?thesis
    by (simp add: handleSecureCommands_def len unknown_command_tests [OF assms(3)]
        println_def)
qed

lemma validateSystemIntegrity_invalid_commands:
  assumes "dht_invalidCommandCount d > 5"
  shows "dht_invalidCommandCount (validateSystemIntegrity d) = 0"
    and "Print InvalidCommandsAlert \<in> set (effects (validateSystemIntegrity d))"
  using assms by (simp_all add: validateSystemIntegrity_def Let_def println_def)

lemma validateSystemIntegrity_few_invalid_commands:
  assumes "\<not> dht_invalidCommandCount d > 5"
  shows "dht_invalidCommandCount (validateSystemIntegrity d) = dht_invalidCommandCount d"
  using assms by (simp_all add: validateSystemIntegrity_def Let_def println_def)

lemma printed_effects: "effects s' = effects s \<Longrightarrow> printed m s' = printed m s"
  by (simp add: printed_def)

lemma printed_println [simp]:
  "printed m (println m' s) = (if m' = m then printed m s + 1 else printed m s)"
  by (simp add: printed_def println_def)

lemma printed_delay [simp]: "printed m (delay n s) = printed m s"
  by (simp add: printed_def delay_def)

lemma printed_digitalWrite [simp]: "printed m (digitalWrite p v s) = printed m s"
  by (cases p) (simp_all add: printed_def digitalWrite_def)

lemma printed_flashAll [simp]: "printed m (flashAll n s) = printed m s"
  by (induction n arbitrary: s) simp_all

lemma processSecureCommand_format:
  assumes "cmd = [] \<or> 15 < length cmd"
  shows "processSecureCommand cmd s =
     s\<lparr>invalidCommandCount := invalidCommandCount s + 1,
       effects := effects s @ [Print InvalidCommandFormat]\<rparr>"
proof -
  have len: "(length cmd = 0 \<or> 15 < length cmd) = True" using assms by auto
  show ?thesis
    by (simp add: processSecureCommand_def len println_def del: length_0_conv)
qed

lemma sensor_stage_command_count:
  "dht_invalidCommandCount (checkRisk (readSensorsSecure temp pir d)) = dht_invalidCommandCount d"
  "lastDataCheck (checkRisk (readSensorsSecure temp pir d)) = lastDataCheck d"
  "printed InvalidCommandsAlert (checkRisk (readSensorsSecure temp pir d)) =
     printed InvalidCommandsAlert d"
  by (simp_all add: checkRisk_def readSensorsSecure_def invalidReading_always Let_def
      println_def printed_def)

lemma validateSystemIntegrity_alert:
  "printed InvalidCommandsAlert (validateSystemIntegrity d) =
     printed InvalidCommandsAlert d + (if dht_invalidCommandCount d > 5 then 1 else 0)"
  "dht_invalidCommandCount (validateSystemIntegrity d) =
     (if dht_invalidCommandCount d > 5 then 0 else dht_invalidCommandCount d)"
  by (simp_all add: validateSystemIntegrity_def Let_def println_def printed_def)

lemma outputs_command_count:
  "dht_invalidCommandCount (updateLeds t d) = dht_invalidCommandCount d"
  "printed InvalidCommandsAlert (updateLeds t d) = printed InvalidCommandsAlert d"
  "dht_invalidCommandCount (updateBuzzer t d) = dht_invalidCommandCount d"
  "printed InvalidCommandsAlert (updateBuzzer t d) = printed InvalidCommandsAlert d"
  by (cases d rule: riskLevel_cases;
      simp add: updateLeds_def updateBuzzer_def Let_def board_ops printed_def)+

lemma flashAll_command_count [simp]:
  "dht_invalidCommandCount (flashAll n d) = dht_invalidCommandCount d"
  by (induction n arbitrary: d) (simp_all add: board_ops)

lemma checkSuppression_command_count:
  "dht_invalidCommandCount (checkSuppression d) = dht_invalidCommandCount d"
  "printed InvalidCommandsAlert (checkSuppression d) = printed InvalidCommandsAlert d"
proof -
  have a: "printed m (x\<lparr>suppressed := True\<rparr>) = printed m x" for m and x :: dht
    by (rule printed_effects) simp
  show "dht_invalidCommandCount (checkSuppression d) = dht_invalidCommandCount d"
    by (simp add: checkSuppression_def dht_validateSuppressionCommand_def
        activateSuppression_def Let_def board_ops)
  show "printed InvalidCommandsAlert (checkSuppression d) = printed InvalidCommandsAlert d"
    by (simp add: checkSuppression_def dht_validateSuppressionCommand_def
        activateSuppression_def Let_def a)
qed

lemma handleSecureCommands_alert:
  "printed InvalidCommandsAlert (handleSecureCommands line d) = printed InvalidCommandsAlert d"
  by (simp add: handleSecureCommands_def validateTestCommand_def dht_resetSystemSecure_def
      Let_def println_def digitalWrite_def printed_def split: option.split)

text \<open>The integrity check is the one place where a pass of the DHT22 loop alerts.\<close>

lemma dht_loop_alert:
  "printed InvalidCommandsAlert (dht_loop i d) =
     printed InvalidCommandsAlert d +
       (if integrityCheckDue i d \<and> dht_invalidCommandCount d > 5 then 1 else 0)"
proof -
  have a: "printed m (x\<lparr>lastSensor := t\<rparr>) = printed m x"
    "printed m (x\<lparr>lastDataCheck := t\<rparr>) = printed m x"
    "printed m (x\<lparr>lastLog := t\<rparr>) = printed m x" for m t and x :: dht
    by (simp_all add: printed_def)
  show ?thesis
    by (simp add: dht_loop_def integrityCheckDue_def Let_def a sensor_stage_command_count
        validateSystemIntegrity_alert outputs_command_count checkSuppression_command_count
        handleSecureCommands_alert)
qed

lemma dht_loop_count_no_command:
  assumes "commandLine i = None"
  shows "dht_invalidCommandCount (dht_loop i d) =
     (if integrityCheckDue i d \<and> dht_invalidCommandCount d > 5 then 0
      else dht_invalidCommandCount d)"
  using assms
  by (simp add: dht_loop_def integrityCheckDue_def Let_def handleSecureCommands_def
      sensor_stage_command_count validateSystemIntegrity_alert outputs_command_count
      checkSuppression_command_count println_def)

lemma dht_loop_count_unknown_command:
  assumes "commandLine i = Some cmd" and "cmd \<noteq> []" and "length cmd \<le> 20"
    and "cmd \<notin> set knownCommands"
  shows "dht_invalidCommandCount (dht_loop i d) =
     (if integrityCheckDue i d \<and> dht_invalidCommandCount d > 5 then 0
      else dht_invalidCommandCount d) + 1"
proof -
  from assms(2) have "1 \<le> length cmd" by (cases cmd) simp_all
  note u = handleSecureCommands_unknown [OF this assms(3,4)]
  show ?thesis
    using assms(1)
    by (simp add: dht_loop_def integrityCheckDue_def Let_def u
        sensor_stage_command_count validateSystemIntegrity_alert outputs_command_count
        checkSuppression_command_count println_def)
qed

text \<open>
  C8, as the two sketches have it. A command that is not empty, not longer than the
  sketch's ceiling (15 characters in the TMP36 sketch, 20 in the DHT22 sketch) and not a
  keyword adds 1 to the invalid-command counter, prints the rejection, and changes
  nothing else. In the TMP36 sketch that same step then compares the counter with
  \<open>MAX_INVALID_COMMANDS = 3\<close>: when the counter has reached it, the security alert is
  printed and the counter set to 0; an empty or over-long command adds 1 and prints the
  format rejection without any comparison. In the DHT22 sketch no command step compares
  or alerts. A pass of its \<^verbatim>\<open>loop()\<close> prints the security alert exactly when the
  periodic integrity check is due (5000 ms since the last one) and finds the counter
  above 5; that check sets the counter to 0, before the command of the same pass, if
  any, is counted.
\<close>

theorem unknown_command_counted:
  assumes "cmd \<noteq> []" and "cmd \<notin> set knownCommands"
  shows "(length cmd \<le> 15 \<longrightarrow>
            processSecureCommand cmd s =
              s\<lparr>invalidCommandCount :=
                  (if invalidCommandCount s + 1 \<ge> MAX_INVALID_COMMANDS then 0
                   else invalidCommandCount s + 1),
                effects := effects s @ [Print (ProcessingCommand cmd), Print UnknownCommand] @
                  (if invalidCommandCount s + 1 \<ge> MAX_INVALID_COMMANDS
                   then [Print MultipleInvalidCommands] else [])\<rparr>) \<and>
         (length cmd \<le> 20 \<longrightarrow>
            handleSecureCommands (Some cmd) d =
              d\<lparr>dht_invalidCommandCount := dht_invalidCommandCount d + 1,
                effects := effects d @ [Print UnknownCommandRejected]\<rparr>) \<and>
         (dht_invalidCommandCount d > 5 \<longrightarrow>
            dht_invalidCommandCount (validateSystemIntegrity d) = 0 \<and>
            Print InvalidCommandsAlert \<in> set (effects (validateSystemIntegrity d))) \<and>
         (long = [] \<or> 15 < length long \<longrightarrow>
            processSecureCommand long s =
              s\<lparr>invalidCommandCount := invalidCommandCount s + 1,
                effects := effects s @ [Print InvalidCommandFormat]\<rparr>) \<and>
         printed InvalidCommandsAlert (handleSecureCommands line d) =
           printed InvalidCommandsAlert d \<and>
         printed InvalidCommandsAlert (dht_loop i d) =
           printed InvalidCommandsAlert d +
             (if integrityCheckDue i d \<and> dht_invalidCommandCount d > 5 then 1 else 0) \<and>
         (commandLine i = None \<longrightarrow>
            dht_invalidCommandCount (dht_loop i d) =
              (if integrityCheckDue i d \<and> dht_invalidCommandCount d > 5 then 0
               else dht_invalidCommandCount d)) \<and>
         (commandLine i = Some cmd \<and> length cmd \<le> 20 \<longrightarrow>
            dht_invalidCommandCount (dht_loop i d) =
              (if integrityCheckDue i d \<and> dht_invalidCommandCount d > 5 then 0
               else dht_invalidCommandCount d) + 1)"
proof -
  from assms(1) have "1 \<le> length cmd" by (cases cmd) simp_all
  with assms show ?thesis
    using processSecureCommand_unknown [of cmd s] handleSecureCommands_unknown [of cmd d]
      validateSystemIntegrity_invalid_commands [of d] processSecureCommand_format [of long s]
      handleSecureCommands_alert [of line d] dht_loop_alert [of i d]
      dht_loop_count_no_command [of i d] dht_loop_count_unknown_command [of i cmd d]
    by blast
qed

theorem unknown_command_counted_witness:
  "processSecureCommand ''OPEN'' (initialState\<lparr>invalidCommandCount := 1\<rparr>) =
     initialState\<lparr>invalidCommandCount := 2,
       effects := [Print (ProcessingCommand ''OPEN''), Print UnknownCommand]\<rparr> \<and>
   processSecureCommand ''OPEN'' (initialState\<lparr>invalidCommandCount := 2\<rparr>) =
     initialState\<lparr>invalidCommandCount := 0,
       effects := [Print (ProcessingCommand ''OPEN''), Print UnknownCommand,
         Print MultipleInvalidCommands]\<rparr> \<and>
   processSecureCommand ''0123456789ABCDEF'' (initialState\<lparr>invalidCommandCount := 2\<rparr>) =
     initialState\<lparr>invalidCommandCount := 3, effects := [Print InvalidCommandFormat]\<rparr> \<and>
   handleSecureCommands (Some ''OPEN'') (dht_initialState\<lparr>dht_invalidCommandCount := 6\<rparr>) =
     dht_initialState\<lparr>dht_invalidCommandCount := 7,
       effects := [Print UnknownCommandRejected]\<rparr> \<and>
   dht_invalidCommandCount
     (validateSystemIntegrity (dht_initialState\<lparr>dht_invalidCommandCount := 6\<rparr>)) = 0 \<and>
   Print InvalidCommandsAlert \<in>
     set (effects (validateSystemIntegrity (dht_initialState\<lparr>dht_invalidCommandCount := 6\<rparr>))) \<and>
   printed InvalidCommandsAlert
     (dht_loop dht_checkTick (dht_initialState\<lparr>dht_invalidCommandCount := 6\<rparr>)) = 1 \<and>
   dht_invalidCommandCount
     (dht_loop dht_checkTick (dht_initialState\<lparr>dht_invalidCommandCount := 6\<rparr>)) = 0 \<and>
   printed InvalidCommandsAlert
     (dht_loop dht_hotTick (dht_initialState\<lparr>dht_invalidCommandCount := 6\<rparr>)) = 0 \<and>
   dht_invalidCommandCount
     (dht_loop dht_hotTick (dht_initialState\<lparr>dht_invalidCommandCount := 6\<rparr>)) = 6 \<and>
   dht_invalidCommandCount
     (dht_loop (dht_checkTick\<lparr>commandLine := Some ''OPEN''\<rparr>)
        (dht_initialState\<lparr>dht_invalidCommandCount := 6\<rparr>)) = 1"
  using unknown_command_counted
      [of "''OPEN''" "initialState\<lparr>invalidCommandCount := 1\<rparr>"
        "dht_initialState\<lparr>dht_invalidCommandCount := 6\<rparr>" "''0123456789ABCDEF''" None
        dht_checkTick]
    unknown_command_counted
      [of "''OPEN''" "initialState\<lparr>invalidCommandCount := 2\<rparr>"
        "dht_initialState\<lparr>dht_invalidCommandCount := 6\<rparr>" "''0123456789ABCDEF''" None
        dht_hotTick]
    unknown_command_counted
      [of "''OPEN''" "initialState\<lparr>invalidCommandCount := 2\<rparr>"
        "dht_initialState\<lparr>dht_invalidCommandCount := 6\<rparr>" "''0123456789ABCDEF''" None
        "dht_checkTick\<lparr>commandLine := Some ''OPEN''\<rparr>"]
  by (simp add: knownCommands_def initialState_def dht_initialState_def
      MAX_INVALID_COMMANDS_def integrityCheckDue_def DATA_CHECK_INTERVAL_def
      dht_checkTick_def dht_hotTick_def printed_def)

text \<open>
  Against C8 as stated. DHT22 sketch, from power-on: six unrecognised commands take
  the counter to 6, past every threshold of the sketch, and no command step alerts or
  resets. TMP36 sketch, from power-on: two unrecognised commands and then one of 16
  characters take the counter to 3, its threshold, with no alert and no reset.
\<close>

theorem counter_reaches_threshold_without_alert:
  "dht_invalidCommandCount
     (handleSecureCommands (Some ''OPEN'') (handleSecureCommands (Some ''OPEN'')
       (handleSecureCommands (Some ''OPEN'') (handleSecureCommands (Some ''OPEN'')
         (handleSecureCommands (Some ''OPEN'') (handleSecureCommands (Some ''OPEN'')
           dht_initialState)))))) = 6 \<and>
   printed InvalidCommandsAlert
     (handleSecureCommands (Some ''OPEN'') (handleSecureCommands (Some ''OPEN'')
       (handleSecureCommands (Some ''OPEN'') (handleSecureCommands (Some ''OPEN'')
         (handleSecureCommands (Some ''OPEN'') (handleSecureCommands (Some ''OPEN'')
           dht_initialState)))))) = 0 \<and>
   invalidCommandCount
     (processSecureCommand ''0123456789ABCDEF''
       (processSecureCommand ''OPEN'' (processSecureCommand ''OPEN'' initialState))) = 3 \<and>
   MAX_INVALID_COMMANDS = 3 \<and>
   printed MultipleInvalidCommands
     (processSecureCommand ''0123456789ABCDEF''
       (processSecureCommand ''OPEN'' (processSecureCommand ''OPEN'' initialState))) = 0"
proof -
  have u: "handleSecureCommands (Some ''OPEN'') x =
      x\<lparr>dht_invalidCommandCount := dht_invalidCommandCount x + 1,
        effects := effects x @ [Print UnknownCommandRejected]\<rparr>" for x
    by (rule handleSecureCommands_unknown) (simp_all add: knownCommands_def)
  have v: "processSecureCommand ''OPEN'' x =
      x\<lparr>invalidCommandCount :=
          (if invalidCommandCount x + 1 \<ge> MAX_INVALID_COMMANDS then 0
           else invalidCommandCount x + 1),
        effects := effects x @ [Print (ProcessingCommand ''OPEN''), Print UnknownCommand] @
          (if invalidCommandCount x + 1 \<ge> MAX_INVALID_COMMANDS
           then [Print MultipleInvalidCommands] else [])\<rparr>" for x
    by (rule processSecureCommand_unknown) (simp_all add: knownCommands_def)
  have w: "processSecureCommand ''0123456789ABCDEF'' x =
      x\<lparr>invalidCommandCount := invalidCommandCount x + 1,
        effects := effects x @ [Print InvalidCommandFormat]\<rparr>" for x
    by (rule processSecureCommand_format) simp
  have n: "\<not> (3 :: 8 word) \<le> 1" by (simp add: word_le_nat_alt)
  show ?thesis
    by (simp add: u v w n dht_initialState_def initialState_def MAX_INVALID_COMMANDS_def
        printed_def)
qed

section \<open>Suppression\<close>

lemma relayFirings_effects: "effects s' = effects s \<Longrightarrow> relayFirings s' = relayFirings s"
  by (simp add: relayFirings_def)

lemma flashAll_tmp36_fields [simp]:
  "suppressionActivated (flashAll n s) = suppressionActivated s"
  "suppressionActivations (flashAll n s) = suppressionActivations s"
  "currentRiskLevel (flashAll n s) = currentRiskLevel s"
  by (induction n arbitrary: s) (simp_all add: board_ops)

lemma flashAll_pinRelay [simp]: "pinRelay (flashAll n s) = pinRelay s"
  by (induction n arbitrary: s) (simp_all add: board_ops)

lemma activateFireSuppression_result:
  "suppressionActivated (activateFireSuppression s)"
  "suppressionActivations (activateFireSuppression s) = suppressionActivations s + 1"
  "currentRiskLevel (activateFireSuppression s) = currentRiskLevel s"
  "pinRelay (activateFireSuppression s) = False"
  by (simp_all add: activateFireSuppression_def Let_def board_ops)

lemma activateFireSuppression_relayFirings:
  "relayFirings (activateFireSuppression s) = relayFirings s + 1"
proof -
  have "relayFirings (s\<lparr>suppressionActivations := suppressionActivations s + 1,
      suppressionActivated := True\<rparr>) = relayFirings s"
    by (rule relayFirings_effects) simp
  then show ?thesis by (simp add: activateFireSuppression_def Let_def)
qed

lemma handleFireSuppression_fires:
  assumes "currentRiskLevel s = DANGER" and "\<not> suppressionActivated s"
    and "TEMP_DANGER \<le> currentTemperature s" and "3 < totalSensorReadings s"
    and "systemIntegrityOK s"
  shows "handleFireSuppression s = activateFireSuppression s"
  using assms by (simp add: handleFireSuppression_def validateSuppressionCommand_def)

lemma handleFireSuppression_idle:
  assumes "\<not> (currentRiskLevel s = DANGER \<and> \<not> suppressionActivated s \<and>
      TEMP_DANGER \<le> currentTemperature s \<and> 3 < totalSensorReadings s \<and> systemIntegrityOK s)"
  shows "handleFireSuppression s = s \<or>
         handleFireSuppression s = println SuppressionValidationFailed s"
proof (cases "currentRiskLevel s = DANGER \<and> \<not> suppressionActivated s")
  case False
  then show ?thesis by (auto simp add: handleFireSuppression_def)
next
  case True
  with assms have c: "(TEMP_DANGER \<le> currentTemperature s \<and> 3 < totalSensorReadings s \<and>
      systemIntegrityOK s) = False" by blast
  from True have g: "currentRiskLevel s = DANGER" "suppressionActivated s = False" by simp_all
  show ?thesis
    by (simp add: handleFireSuppression_def validateSuppressionCommand_def c g)
qed

lemma handleFireSuppression_idle_fields:
  assumes "\<not> (currentRiskLevel s = DANGER \<and> \<not> suppressionActivated s \<and>
      TEMP_DANGER \<le> currentTemperature s \<and> 3 < totalSensorReadings s \<and> systemIntegrityOK s)"
  shows "relayFirings (handleFireSuppression s) = relayFirings s"
    and "suppressionActivated (handleFireSuppression s) = suppressionActivated s"
    and "suppressionActivations (handleFireSuppression s) = suppressionActivations s"
    and "pinRelay (handleFireSuppression s) = pinRelay s"
  using handleFireSuppression_idle [OF assms] by (auto simp add: println_def relayFirings_def)

lemma activateSuppression_result:
  "suppressed (activateSuppression d)"
  "riskLevel (activateSuppression d) = riskLevel d"
  "pinRelay (activateSuppression d) = False"
  by (simp_all add: activateSuppression_def Let_def board_ops)

lemma activateSuppression_relayFirings:
  "relayFirings (activateSuppression d) = relayFirings d + 1"
proof -
  have r: "relayFirings (x\<lparr>suppressed := True\<rparr>) = relayFirings x" for x :: dht
    by (rule relayFirings_effects) simp
  show ?thesis by (simp add: activateSuppression_def Let_def r)
qed

lemma checkSuppression_fires:
  assumes "riskLevel d = 2" and "\<not> suppressed d"
    and "dht_TEMP_DANGER \<le> currentTemp d" and "5 < readings d"
  shows "checkSuppression d = activateSuppression d"
  using assms by (simp add: checkSuppression_def dht_validateSuppressionCommand_def)

lemma checkSuppression_idle:
  assumes "\<not> (riskLevel d = 2 \<and> \<not> suppressed d \<and> dht_TEMP_DANGER \<le> currentTemp d \<and>
      5 < readings d)"
  shows "checkSuppression d = d \<or> checkSuppression d = println SuppressionFailed d"
proof (cases "riskLevel d = 2 \<and> \<not> suppressed d")
  case False
  then show ?thesis by (auto simp add: checkSuppression_def)
next
  case True
  with assms have c: "(dht_TEMP_DANGER \<le> currentTemp d \<and> 5 < readings d) = False" by blast
  from True have g: "riskLevel d = 2" "suppressed d = False" by simp_all
  show ?thesis
    by (simp add: checkSuppression_def dht_validateSuppressionCommand_def c g)
qed

lemma checkSuppression_idle_fields:
  assumes "\<not> (riskLevel d = 2 \<and> \<not> suppressed d \<and> dht_TEMP_DANGER \<le> currentTemp d \<and>
      5 < readings d)"
  shows "relayFirings (checkSuppression d) = relayFirings d"
    and "suppressed (checkSuppression d) = suppressed d"
    and "pinRelay (checkSuppression d) = pinRelay d"
  using checkSuppression_idle [OF assms] by (auto simp add: println_def relayFirings_def)

text \<open>
  C3, as the two sketches have it. In the TMP36 sketch the suppression step activates
  (the relay is driven high once, the latch is set, the activation statistic is
  incremented) exactly when the level is Danger, the temperature is at least 60, more
  than 3 readings have been taken, the integrity flag is set and the latch is clear; in
  every other state it drives no relay and leaves latch, statistic and relay pin as they
  were. In the DHT22 sketch, which keeps neither an integrity flag nor an activation
  statistic, the step activates exactly when the level is Danger, the temperature is at
  least 60, more than 5 readings have been taken and the latch is clear.
\<close>

theorem suppression_activation_conditions:
  "(if currentRiskLevel s = DANGER \<and> TEMP_DANGER \<le> currentTemperature s \<and>
       3 < totalSensorReadings s \<and> systemIntegrityOK s \<and> \<not> suppressionActivated s
    then relayFirings (handleFireSuppression s) = relayFirings s + 1 \<and>
         suppressionActivated (handleFireSuppression s) \<and>
         suppressionActivations (handleFireSuppression s) = suppressionActivations s + 1
    else relayFirings (handleFireSuppression s) = relayFirings s \<and>
         suppressionActivated (handleFireSuppression s) = suppressionActivated s \<and>
         suppressionActivations (handleFireSuppression s) = suppressionActivations s \<and>
         pinRelay (handleFireSuppression s) = pinRelay s) \<and>
   (if riskLevel d = 2 \<and> dht_TEMP_DANGER \<le> currentTemp d \<and> 5 < readings d \<and>
       \<not> suppressed d
    then relayFirings (checkSuppression d) = relayFirings d + 1 \<and>
         suppressed (checkSuppression d)
    else relayFirings (checkSuppression d) = relayFirings d \<and>
         suppressed (checkSuppression d) = suppressed d \<and>
         pinRelay (checkSuppression d) = pinRelay d)"
proof (intro conjI)
  show "if currentRiskLevel s = DANGER \<and> TEMP_DANGER \<le> currentTemperature s \<and>
       3 < totalSensorReadings s \<and> systemIntegrityOK s \<and> \<not> suppressionActivated s
    then relayFirings (handleFireSuppression s) = relayFirings s + 1 \<and>
         suppressionActivated (handleFireSuppression s) \<and>
         suppressionActivations (handleFireSuppression s) = suppressionActivations s + 1
    else relayFirings (handleFireSuppression s) = relayFirings s \<and>
         suppressionActivated (handleFireSuppression s) = suppressionActivated s \<and>
         suppressionActivations (handleFireSuppression s) = suppressionActivations s \<and>
         pinRelay (handleFireSuppression s) = pinRelay s"
  proof (cases "currentRiskLevel s = DANGER \<and> \<not> suppressionActivated s \<and>
      TEMP_DANGER \<le> currentTemperature s \<and> 3 < totalSensorReadings s \<and> systemIntegrityOK s")
    case True
    then have "handleFireSuppression s = activateFireSuppression s"
      by (simp add: handleFireSuppression_fires)
    with True show ?thesis
      by (simp add: activateFireSuppression_result activateFireSuppression_relayFirings)
  next
    case False
    from handleFireSuppression_idle_fields [OF False] False show ?thesis by auto
  qed
  show "if riskLevel d = 2 \<and> dht_TEMP_DANGER \<le> currentTemp d \<and> 5 < readings d \<and>
       \<not> suppressed d
    then relayFirings (checkSuppression d) = relayFirings d + 1 \<and>
         suppressed (checkSuppression d)
    else relayFirings (checkSuppression d) = relayFirings d \<and>
         suppressed (checkSuppression d) = suppressed d \<and>
         pinRelay (checkSuppression d) = pinRelay d"
  proof (cases "riskLevel d = 2 \<and> \<not> suppressed d \<and> dht_TEMP_DANGER \<le> currentTemp d \<and>
      5 < readings d")
    case True
    then have "checkSuppression d = activateSuppression d"
      by (simp add: checkSuppression_fires)
    with True show ?thesis
      by (simp add: activateSuppression_result activateSuppression_relayFirings)
  next
    case False
    from checkSuppression_idle_fields [OF False] False show ?thesis by auto
  qed
qed

theorem suppression_activation_conditions_witness:
  "relayFirings (handleFireSuppression dangerState) = relayFirings dangerState + 1 \<and>
   suppressionActivated (handleFireSuppression dangerState) \<and>
   suppressionActivations (handleFireSuppression dangerState) =
     suppressionActivations dangerState + 1 \<and>
   relayFirings (handleFireSuppression (dangerState\<lparr>systemIntegrityOK := False\<rparr>)) =
     relayFirings (dangerState\<lparr>systemIntegrityOK := False\<rparr>) \<and>
   \<not> suppressionActivated (handleFireSuppression (dangerState\<lparr>systemIntegrityOK := False\<rparr>)) \<and>
   relayFirings (checkSuppression dht_dangerState) = relayFirings dht_dangerState + 1 \<and>
   suppressed (checkSuppression dht_dangerState) \<and>
   relayFirings (checkSuppression (dht_dangerState\<lparr>readings := 5\<rparr>)) =
     relayFirings (dht_dangerState\<lparr>readings := 5\<rparr>) \<and>
   \<not> suppressed (checkSuppression (dht_dangerState\<lparr>readings := 5\<rparr>))"
  using suppression_activation_conditions [of dangerState dht_dangerState]
    suppression_activation_conditions
      [of "dangerState\<lparr>systemIntegrityOK := False\<rparr>" "dht_dangerState\<lparr>readings := 5\<rparr>"]
  by (simp add: dangerState_def initialState_def dht_dangerState_def dht_initialState_def
      TEMP_DANGER_def dht_TEMP_DANGER_def)

text \<open>
  Against C3 as stated: the DHT22 sketch as three rejected Auto-mode readings,
  \<^verbatim>\<open>TEST_DANGER\<close> and three Demo-mode readings leave it: Demo mode at 70 degrees, the
  level at Danger, 6 readings taken and 3 sensor errors on the count, so that its
  security report reads \<^verbatim>\<open>System Integrity: DEGRADED\<close>. The suppression step fires.
\<close>

theorem dht_fires_with_degraded_integrity:
  "\<not> systemIntegrityGood
       (dht_initialState\<lparr>riskLevel := 2, sysMode := 1, currentTemp := 70, demoTemp := 70,
          dht_sensorErrorCount := 3, readings := 6, dangers := 1\<rparr>) \<and>
   relayFirings (checkSuppression
       (dht_initialState\<lparr>riskLevel := 2, sysMode := 1, currentTemp := 70, demoTemp := 70,
          dht_sensorErrorCount := 3, readings := 6, dangers := 1\<rparr>)) = 1 \<and>
   suppressed (checkSuppression
       (dht_initialState\<lparr>riskLevel := 2, sysMode := 1, currentTemp := 70, demoTemp := 70,
          dht_sensorErrorCount := 3, readings := 6, dangers := 1\<rparr>))"
proof -
  let ?d = "dht_initialState\<lparr>riskLevel := 2, sysMode := 1, currentTemp := 70, demoTemp := 70,
          dht_sensorErrorCount := 3, readings := 6, dangers := 1\<rparr>"
  have "checkSuppression ?d = activateSuppression ?d"
    by (rule checkSuppression_fires) (simp_all add: dht_initialState_def dht_TEMP_DANGER_def)
  moreover have "relayFirings ?d = 0"
    by (simp add: relayFirings_def dht_initialState_def)
  moreover have "\<not> systemIntegrityGood ?d"
    by (simp add: systemIntegrityGood_def dht_initialState_def)
  ultimately show ?thesis
    by (simp add: activateSuppression_result activateSuppression_relayFirings)
qed

section \<open>Entry statistics\<close>

lemma evaluateFireRisk_warningActivations:
  "warningActivations (evaluateFireRisk s) =
     (if currentRiskLevel (evaluateFireRisk s) = WARNING \<and> currentRiskLevel s \<noteq> WARNING
      then warningActivations s + 1 else warningActivations s)"
  by (simp add: evaluateFireRisk_def Let_def println_def)

lemma evaluateFireRisk_dangerActivations:
  "dangerActivations (evaluateFireRisk s) =
     (if currentRiskLevel (evaluateFireRisk s) = DANGER \<and> currentRiskLevel s \<noteq> DANGER
      then dangerActivations s + 1 else dangerActivations s)"
  by (simp add: evaluateFireRisk_def Let_def println_def)

lemma checkRisk_warnings:
  "warnings (checkRisk d) =
     (if riskLevel (checkRisk d) = 1 \<and> riskLevel d \<noteq> 1 then warnings d + 1 else warnings d)"
  by (simp add: checkRisk_def Let_def println_def)

lemma checkRisk_dangers:
  "dangers (checkRisk d) =
     (if riskLevel (checkRisk d) = 2 \<and> riskLevel d \<noteq> 2 then dangers d + 1 else dangers d)"
  by (simp add: checkRisk_def Let_def println_def)

lemma evaluateAt_fields:
  "currentRiskLevel (evaluateAt t s) =
     (if TEMP_DANGER \<le> t then DANGER else if TEMP_WARNING \<le> t then WARNING else NORMAL)"
  "warningActivations (evaluateAt t s) =
     (if currentRiskLevel (evaluateAt t s) = WARNING \<and> currentRiskLevel s \<noteq> WARNING
      then warningActivations s + 1 else warningActivations s)"
  "dangerActivations (evaluateAt t s) =
     (if currentRiskLevel (evaluateAt t s) = DANGER \<and> currentRiskLevel s \<noteq> DANGER
      then dangerActivations s + 1 else dangerActivations s)"
  by (simp_all add: evaluateAt_def evaluateFireRisk_level evaluateFireRisk_warningActivations
      evaluateFireRisk_dangerActivations)

lemma checkRiskAt_fields:
  "riskLevel (checkRiskAt t d) =
     (if dht_TEMP_DANGER \<le> t then 2 else if TEMP_WARN \<le> t then 1 else 0)"
  "warnings (checkRiskAt t d) =
     (if riskLevel (checkRiskAt t d) = 1 \<and> riskLevel d \<noteq> 1 then warnings d + 1
      else warnings d)"
  "dangers (checkRiskAt t d) =
     (if riskLevel (checkRiskAt t d) = 2 \<and> riskLevel d \<noteq> 2 then dangers d + 1
      else dangers d)"
  by (simp_all add: checkRiskAt_def checkRisk_level checkRisk_warnings checkRisk_dangers)

text \<open>While the level stays where it is, no evaluation counts anything.\<close>

lemma evaluations_stay_warning:
  assumes "\<forall>t \<in> set ts. TEMP_WARNING \<le> t \<and> t < TEMP_DANGER" and "currentRiskLevel s = WARNING"
  shows "warningActivations (evaluations ts s) = warningActivations s \<and>
         dangerActivations (evaluations ts s) = dangerActivations s"
  using assms
proof (induction ts arbitrary: s)
  case Nil
  then show ?case by simp
next
  case (Cons t ts)
  from Cons.prems have t: "TEMP_WARNING \<le> t" "\<not> TEMP_DANGER \<le> t" by simp_all
  have "currentRiskLevel (evaluateAt t s) = WARNING"
    "warningActivations (evaluateAt t s) = warningActivations s"
    "dangerActivations (evaluateAt t s) = dangerActivations s"
    using t Cons.prems(2) by (simp_all add: evaluateAt_fields)
  with Cons.IH [of "evaluateAt t s"] Cons.prems(1) show ?case by simp
qed

lemma evaluations_stay_danger:
  assumes "\<forall>t \<in> set ts. TEMP_DANGER \<le> t" and "currentRiskLevel s = DANGER"
  shows "warningActivations (evaluations ts s) = warningActivations s \<and>
         dangerActivations (evaluations ts s) = dangerActivations s"
  using assms
proof (induction ts arbitrary: s)
  case Nil
  then show ?case by simp
next
  case (Cons t ts)
  from Cons.prems have t: "TEMP_DANGER \<le> t" by simp
  have "currentRiskLevel (evaluateAt t s) = DANGER"
    "warningActivations (evaluateAt t s) = warningActivations s"
    "dangerActivations (evaluateAt t s) = dangerActivations s"
    using t Cons.prems(2) by (simp_all add: evaluateAt_fields)
  with Cons.IH [of "evaluateAt t s"] Cons.prems(1) show ?case by simp
qed

lemma riskChecks_stay_warning:
  assumes "\<forall>t \<in> set ts. TEMP_WARN \<le> t \<and> t < dht_TEMP_DANGER" and "riskLevel d = 1"
  shows "warnings (riskChecks ts d) = warnings d \<and> dangers (riskChecks ts d) = dangers d"
  using assms
proof (induction ts arbitrary: d)
  case Nil
  then show ?case by simp
next
  case (Cons t ts)
  from Cons.prems have t: "TEMP_WARN \<le> t" "\<not> dht_TEMP_DANGER \<le> t" by simp_all
  have "riskLevel (checkRiskAt t d) = 1" "warnings (checkRiskAt t d) = warnings d"
    "dangers (checkRiskAt t d) = dangers d"
    using t Cons.prems(2) by (simp_all add: checkRiskAt_fields)
  with Cons.IH [of "checkRiskAt t d"] Cons.prems(1) show ?case by simp
qed

lemma riskChecks_stay_danger:
  assumes "\<forall>t \<in> set ts. dht_TEMP_DANGER \<le> t" and "riskLevel d = 2"
  shows "warnings (riskChecks ts d) = warnings d \<and> dangers (riskChecks ts d) = dangers d"
  using assms
proof (induction ts arbitrary: d)
  case Nil
  then show ?case by simp
next
  case (Cons t ts)
  from Cons.prems have t: "dht_TEMP_DANGER \<le> t" by simp
  have "riskLevel (checkRiskAt t d) = 2" "warnings (checkRiskAt t d) = warnings d"
    "dangers (checkRiskAt t d) = dangers d"
    using t Cons.prems(2) by (simp_all add: checkRiskAt_fields)
  with Cons.IH [of "checkRiskAt t d"] Cons.prems(1) show ?case by simp
qed

text \<open>A run of evaluations at one level, entered from another level, counts once.\<close>

lemma evaluations_enter_warning:
  assumes "ts \<noteq> []" and "\<forall>t \<in> set ts. TEMP_WARNING \<le> t \<and> t < TEMP_DANGER"
    and "currentRiskLevel s \<noteq> WARNING"
  shows "warningActivations (evaluations ts s) = warningActivations s + 1 \<and>
         dangerActivations (evaluations ts s) = dangerActivations s"
proof (cases ts)
  case Nil
  with assms(1) show ?thesis by simp
next
  case (Cons t ts')
  with assms(2) have t: "TEMP_WARNING \<le> t" "\<not> TEMP_DANGER \<le> t"
    and rest: "\<forall>t \<in> set ts'. TEMP_WARNING \<le> t \<and> t < TEMP_DANGER" by simp_all
  have 1: "currentRiskLevel (evaluateAt t s) = WARNING"
    "warningActivations (evaluateAt t s) = warningActivations s + 1"
    "dangerActivations (evaluateAt t s) = dangerActivations s"
    using t assms(3) by (simp_all add: evaluateAt_fields)
  from evaluations_stay_warning [OF rest 1(1)] 1 Cons show ?thesis by simp
qed

lemma evaluations_enter_danger:
  assumes "ts \<noteq> []" and "\<forall>t \<in> set ts. TEMP_DANGER \<le> t" and "currentRiskLevel s \<noteq> DANGER"
  shows "dangerActivations (evaluations ts s) = dangerActivations s + 1 \<and>
         warningActivations (evaluations ts s) = warningActivations s"
proof (cases ts)
  case Nil
  with assms(1) show ?thesis by simp
next
  case (Cons t ts')
  with assms(2) have t: "TEMP_DANGER \<le> t" and rest: "\<forall>t \<in> set ts'. TEMP_DANGER \<le> t"
    by simp_all
  have 1: "currentRiskLevel (evaluateAt t s) = DANGER"
    "dangerActivations (evaluateAt t s) = dangerActivations s + 1"
    "warningActivations (evaluateAt t s) = warningActivations s"
    using t assms(3) by (simp_all add: evaluateAt_fields)
  from evaluations_stay_danger [OF rest 1(1)] 1 Cons show ?thesis by simp
qed

lemma riskChecks_enter_warning:
  assumes "ts \<noteq> []" and "\<forall>t \<in> set ts. TEMP_WARN \<le> t \<and> t < dht_TEMP_DANGER"
    and "riskLevel d \<noteq> 1"
  shows "warnings (riskChecks ts d) = warnings d + 1 \<and> dangers (riskChecks ts d) = dangers d"
proof (cases ts)
  case Nil
  with assms(1) show ?thesis by simp
next
  case (Cons t ts')
  with assms(2) have t: "TEMP_WARN \<le> t" "\<not> dht_TEMP_DANGER \<le> t"
    and rest: "\<forall>t \<in> set ts'. TEMP_WARN \<le> t \<and> t < dht_TEMP_DANGER" by simp_all
  have 1: "riskLevel (checkRiskAt t d) = 1" "warnings (checkRiskAt t d) = warnings d + 1"
    "dangers (checkRiskAt t d) = dangers d"
    using t assms(3) by (simp_all add: checkRiskAt_fields)
  from riskChecks_stay_warning [OF rest 1(1)] 1 Cons show ?thesis by simp
qed

lemma riskChecks_enter_danger:
  assumes "ts \<noteq> []" and "\<forall>t \<in> set ts. dht_TEMP_DANGER \<le> t" and "riskLevel d \<noteq> 2"
  shows "dangers (riskChecks ts d) = dangers d + 1 \<and> warnings (riskChecks ts d) = warnings d"
proof (cases ts)
  case Nil
  with assms(1) show ?thesis by simp
next
  case (Cons t ts')
  with assms(2) have t: "dht_TEMP_DANGER \<le> t" and rest: "\<forall>t \<in> set ts'. dht_TEMP_DANGER \<le> t"
    by simp_all
  have 1: "riskLevel (checkRiskAt t d) = 2" "dangers (checkRiskAt t d) = dangers d + 1"
    "warnings (checkRiskAt t d) = warnings d"
    using t assms(3) by (simp_all add: checkRiskAt_fields)
  from riskChecks_stay_danger [OF rest 1(1)] 1 Cons show ?thesis by simp
qed

text \<open>
  C7, as the sketches count. An evaluation increments the warning-entry statistic
  exactly when it leaves the level at Warning and found it elsewhere (at Normal or at
  Danger), and the danger-entry statistic exactly when it leaves the level at Danger and
  found it elsewhere. Hence a maximal run of consecutive evaluations at one level counts
  once, on its first evaluation, and not once per tick.
\<close>

theorem entry_statistics_edge_triggered:
  "warningActivations (evaluateFireRisk s) =
     (if currentRiskLevel (evaluateFireRisk s) = WARNING \<and> currentRiskLevel s \<noteq> WARNING
      then warningActivations s + 1 else warningActivations s) \<and>
   dangerActivations (evaluateFireRisk s) =
     (if currentRiskLevel (evaluateFireRisk s) = DANGER \<and> currentRiskLevel s \<noteq> DANGER
      then dangerActivations s + 1 else dangerActivations s) \<and>
   warnings (checkRisk d) =
     (if riskLevel (checkRisk d) = 1 \<and> riskLevel d \<noteq> 1 then warnings d + 1 else warnings d) \<and>
   dangers (checkRisk d) =
     (if riskLevel (checkRisk d) = 2 \<and> riskLevel d \<noteq> 2 then dangers d + 1 else dangers d) \<and>
   (ts \<noteq> [] \<and> (\<forall>t \<in> set ts. 50 \<le> t \<and> t < 60) \<longrightarrow>
      (currentRiskLevel s \<noteq> WARNING \<longrightarrow>
         warningActivations (evaluations ts s) = warningActivations s + 1 \<and>
         dangerActivations (evaluations ts s) = dangerActivations s) \<and>
      (riskLevel d \<noteq> 1 \<longrightarrow>
         warnings (riskChecks ts d) = warnings d + 1 \<and>
         dangers (riskChecks ts d) = dangers d)) \<and>
   (ts \<noteq> [] \<and> (\<forall>t \<in> set ts. 60 \<le> t) \<longrightarrow>
      (currentRiskLevel s \<noteq> DANGER \<longrightarrow>
         dangerActivations (evaluations ts s) = dangerActivations s + 1 \<and>
         warningActivations (evaluations ts s) = warningActivations s) \<and>
      (riskLevel d \<noteq> 2 \<longrightarrow>
         dangers (riskChecks ts d) = dangers d + 1 \<and>
         warnings (riskChecks ts d) = warnings d))"
  using evaluateFireRisk_warningActivations [of s] evaluateFireRisk_dangerActivations [of s]
    checkRisk_warnings [of d] checkRisk_dangers [of d]
    evaluations_enter_warning [of ts s] evaluations_enter_danger [of ts s]
    riskChecks_enter_warning [of ts d] riskChecks_enter_danger [of ts d]
  unfolding TEMP_WARNING_def TEMP_DANGER_def TEMP_WARN_def dht_TEMP_DANGER_def
  by blast

theorem entry_statistics_edge_triggered_witness:
  "warningActivations (evaluations [55, 56, 57] initialState) = 1 \<and>
   dangerActivations (evaluations [55, 56, 57] initialState) = 0 \<and>
   warnings (riskChecks [55, 56, 57] dht_initialState) = 1 \<and>
   dangers (riskChecks [55, 56, 57] dht_initialState) = 0 \<and>
   dangerActivations (evaluations [70, 70, 70] initialState) = 1 \<and>
   warningActivations (evaluations [70, 70, 70] initialState) = 0 \<and>
   dangers (riskChecks [70, 70, 70] dht_initialState) = 1 \<and>
   warnings (riskChecks [70, 70, 70] dht_initialState) = 0"
  using entry_statistics_edge_triggered [of initialState dht_initialState "[55, 56, 57]"]
    entry_statistics_edge_triggered [of initialState dht_initialState "[70, 70, 70]"]
  by (simp add: initialState_def dht_initialState_def)

text \<open>
  Against C7 as stated: the readings 55, 65, 55 from power-on. The level is Warning,
  Danger, Warning, never Normal: one Warning-or-above episode; the warning-entry
  statistic ends at 2. And the single reading 65 makes a Warning-or-above episode in
  which the warning-entry statistic stays 0.
\<close>

theorem warning_counted_twice_in_one_episode:
  "currentRiskLevel (evaluations [55] initialState) = WARNING \<and>
   currentRiskLevel (evaluations [55, 65] initialState) = DANGER \<and>
   currentRiskLevel (evaluations [55, 65, 55] initialState) = WARNING \<and>
   warningActivations (evaluations [55, 65, 55] initialState) = 2 \<and>
   currentRiskLevel (evaluations [65] initialState) = DANGER \<and>
   warningActivations (evaluations [65] initialState) = 0"
  by (simp add: evaluateAt_fields TEMP_WARNING_def TEMP_DANGER_def initialState_def)

section \<open>The suppression latch over passes of the loop\<close>

lemma relayFirings_append:
  "effects s' = effects s @ es \<Longrightarrow>
   relayFirings s' = relayFirings s + length (filter (\<lambda>e. e = DigitalWrite RELAY_PIN True) es)"
  by (simp add: relayFirings_def)























lemma checkSuppression_level: "riskLevel (checkSuppression d) = riskLevel d"
proof (cases "riskLevel d = 2 \<and> \<not> suppressed d \<and> dht_TEMP_DANGER \<le> currentTemp d \<and>
    5 < readings d")
  case True
  then show ?thesis by (simp add: checkSuppression_fires activateSuppression_result)
next
  case False
  from checkSuppression_idle [OF False] show ?thesis by (auto simp add: println_def)
qed












































end
